theory Spec2Isabelle
  imports Complex_Main "HOL-Library.Word"
begin

section \<open>Shared vocabulary of the postgres value layer\<close>

text \<open>
  Go's \<^verbatim>\<open>[]byte\<close> and \<^verbatim>\<open>string\<close> are both sequences of bytes; both are modelled as
  lists of \<^typ>\<open>char\<close> (a \<^typ>\<open>char\<close> is one byte). The bytes that cannot be written inside
  a string literal are named here.
\<close>

type_synonym bytes = "char list"

abbreviation bslash :: char where "bslash \<equiv> CHR 0x5C"
abbreviation dquote :: char where "dquote \<equiv> CHR 0x22"

definition nullBytes :: bytes where
  "nullBytes = ''NULL''"

text \<open>
  A \<^verbatim>\<open>float64\<close> is either a finite number, one of the two infinities or not-a-number.
  Only comparison and storing of floats is modelled, so a finite float is identified with the
  real number it denotes. \<^verbatim>\<open>time.Time\<close> is left abstract.
\<close>

datatype float64 = Finite real | PosInf | NegInf | NaN

typedecl Time

text \<open>
  A Go map is modelled as an association list with distinct keys: \<open>map_of m k\<close> is the
  lookup \<^verbatim>\<open>m[k]\<close> and \<open>map_set m k v\<close> the assignment \<^verbatim>\<open>m[k] = v\<close>. The order of the list
  stands for the order in which a \<^verbatim>\<open>range\<close> loop visits the entries, which Go leaves
  unspecified.
\<close>

fun map_set :: "('k \<times> 'a) list \<Rightarrow> 'k \<Rightarrow> 'a \<Rightarrow> ('k \<times> 'a) list" where
  "map_set [] k v = [(k, v)]"
| "map_set ((k1, v1) # m) k v = (if k1 = k then (k, v) # m else (k1, v1) # map_set m k v)"

text \<open>
  The dynamic type of an \<^verbatim>\<open>interface{}\<close> argument of \<^verbatim>\<open>Scan\<close>. Go's \<^verbatim>\<open>int\<close> and
  \<^verbatim>\<open>uint\<close> are taken to be 64 bits wide. \<open>'v\<close> is the type of already constructed
  \<^verbatim>\<open>Value\<close>s; \<open>SOther\<close> stands for every dynamic type no \<^verbatim>\<open>Scan\<close> looks at.
\<close>

datatype 'v src =
    SNil
  | SInt "64 word" | SInt8 "8 word" | SInt16 "16 word" | SInt32 "32 word" | SInt64 "64 word"
  | SUint "64 word" | SUint8 "8 word" | SUint16 "16 word" | SUint32 "32 word" | SUint64 "64 word"
  | SBool bool
  | SFloat32 float64 | SFloat64 float64
  | SString string
  | SBytes bytes
  | STime Time
  | SMap "(string \<times> string) list"
  | SSlice "'v src list"
  | SValue 'v
  | SOther

text \<open>
  Errors are values. Each constructor stands for one \<^verbatim>\<open>fmt.Errorf\<close> site (or one error of
  \<^verbatim>\<open>strconv\<close>) and carries the arguments of the message that matter here; the rendering of
  the offending input with \<^verbatim>\<open>%T\<close> and \<^verbatim>\<open>%v\<close> is not modelled.
\<close>

datatype strconv_err = ErrSyntax | ErrRange | ErrBitSize

datatype error =
    CannotFitInt "64 word" int        \<comment> \<open>\<^verbatim>\<open>Cannot fit %v into int%d\<close>\<close>
  | InvalidBitSize int                \<comment> \<open>\<^verbatim>\<open>invalid bitSize %d\<close>\<close>
  | CannotSetInteger int              \<comment> \<open>\<^verbatim>\<open>cannot set %dbit Integer Value with ...\<close>\<close>
  | NumError string string strconv_err \<comment> \<open>\<^verbatim>\<open>strconv.NumError{Func, Num, Err}\<close>\<close>
  | CannotSetBoolean
  | CannotSetString
  | CannotFitChar string int          \<comment> \<open>\<^verbatim>\<open>cannot fit %s into Char(%d) Value\<close>\<close>
  | CannotFitReal float64             \<comment> \<open>\<^verbatim>\<open>cannot fit float64 %f into REAL Value\<close>\<close>
  | CannotSetFloat int
  | CannotSetBytea
  | CannotSetEnum
  | EnumNotOneOf "string list"        \<comment> \<open>\<^verbatim>\<open>Value should be one of %s got %s\<close>\<close>
  | CannotSetNumeric int int
  | CannotSetTimestamp
  | CouldNotParseTime string          \<comment> \<open>\<^verbatim>\<open>could not parse time string %s\<close>\<close>
  | CannotSetHStore
  | CannotParseIntoValue              \<comment> \<open>\<^verbatim>\<open>Cannot parse %T into Value expected []byte or string\<close>\<close>
  | UnknownFormat bytes               \<comment> \<open>\<^verbatim>\<open>cannot split data. Unknown format: %s\<close>\<close>
  | MissingCloser char bytes          \<comment> \<open>\<^verbatim>\<open>cannot split data. missing '%s': %s\<close>\<close>
  | RowValueCount nat nat             \<comment> \<open>\<^verbatim>\<open>Number of input values does not match ...\<close>\<close>
  | RowColumnCount nat nat            \<comment> \<open>\<^verbatim>\<open>Number of input columns does not match ...\<close>\<close>
  | NoColumn string                   \<comment> \<open>\<^verbatim>\<open>No column %s\<close>\<close>
  | CannotAppend nat                  \<comment> \<open>\<^verbatim>\<open>Cannot append ...\<close>\<close>
  | ShouldNotBePossible               \<comment> \<open>the message of the \<^verbatim>\<open>panic\<close> in \<^verbatim>\<open>rowScanner\<close>\<close>

text \<open>
  A call either panics (an index out of range, a method call on a nil \<^verbatim>\<open>Value\<close>, a type
  assertion that fails, or an explicit \<^verbatim>\<open>panic\<close> with a message) or returns.
\<close>

datatype panic = IndexOutOfRange | NilDereference | FailedTypeAssertion | ExplicitPanic error

datatype 'a outcome = Panics panic | Returns 'a

text \<open>The native form returned by \<^verbatim>\<open>Val()\<close>, an \<^verbatim>\<open>interface{}\<close>.\<close>

datatype native =
    NNil
  | NInt64 "64 word"
  | NFloat64 float64
  | NBool bool
  | NString string
  | NBytes bytes
  | NTime Time
  | NMap "(string \<times> string) list"
  | NSlice "native list"

section \<open>Integers: \<^verbatim>\<open>fitInt\<close> and \<^verbatim>\<open>pgInteger\<close>\<close>

definition MaxInt8 :: int where "MaxInt8 = 127"
definition MaxInt16 :: int where "MaxInt16 = 32767"
definition MaxInt32 :: int where "MaxInt32 = 2147483647"
definition MaxInt64 :: int where "MaxInt64 = 9223372036854775807"

text \<open>
  The first switch of \<^verbatim>\<open>fitInt\<close>: the conversion of the input to \<^verbatim>\<open>int64\<close>. Signed inputs
  are sign-extended, unsigned ones zero-extended; \<^verbatim>\<open>uint\<close> and \<^verbatim>\<open>uint64\<close> are refused
  unless below \<^verbatim>\<open>math.MaxInt64\<close>. Any other dynamic type leaves \<open>r\<close> at zero.
\<close>

fun toInt64 :: "'v src \<Rightarrow> int \<Rightarrow> error + 64 word" where
  "toInt64 (SInt n) bitSize = Inr n"
| "toInt64 (SInt8 n) bitSize = Inr (scast n)"
| "toInt64 (SInt16 n) bitSize = Inr (scast n)"
| "toInt64 (SInt32 n) bitSize = Inr (scast n)"
| "toInt64 (SInt64 n) bitSize = Inr n"
| "toInt64 (SUint8 n) bitSize = Inr (ucast n)"
| "toInt64 (SUint16 n) bitSize = Inr (ucast n)"
| "toInt64 (SUint32 n) bitSize = Inr (ucast n)"
| "toInt64 (SUint n) bitSize =
     (if uint n < MaxInt64 then Inr n else Inl (CannotFitInt n bitSize))"
| "toInt64 (SUint64 n) bitSize =
     (if uint n < MaxInt64 then Inr n else Inl (CannotFitInt n bitSize))"
| "toInt64 _ bitSize = Inr 0"

text \<open>
  \<^verbatim>\<open>fitInt\<close> returns the pair \<^verbatim>\<open>(r, err)\<close>; on an error \<open>r\<close> is zero. The comparisons of
  the second switch are signed comparisons of an \<^verbatim>\<open>int64\<close> with a constant.
\<close>

definition fitInt :: "'v src \<Rightarrow> int \<Rightarrow> 64 word \<times> error option" where
  "fitInt v bitSize =
     (case toInt64 v bitSize of
        Inl e \<Rightarrow> (0, Some e)
      | Inr r \<Rightarrow>
          if bitSize \<noteq> 8 \<and> bitSize \<noteq> 16 \<and> bitSize \<noteq> 32 \<and> bitSize \<noteq> 64
          then (0, Some (InvalidBitSize bitSize))
          else let ok = (if bitSize = 8 then sint r < MaxInt8
                         else if bitSize = 16 then sint r < MaxInt16
                         else if bitSize = 32 then sint r < MaxInt32
                         else True)
               in if \<not> ok then (0, Some (CannotFitInt r bitSize)) else (r, None))"

subsection \<open>\<^verbatim>\<open>strconv.ParseInt\<close> in base 10\<close>

text \<open>
  The standard library's \<^verbatim>\<open>ParseInt(s, 10, bitSize)\<close>: an optional sign, then
  \<^verbatim>\<open>ParseUint\<close> on the rest, which reads the digits from the left and stops at the first
  byte that is no digit (a syntax error) or at the first digit that takes the number past
  \<open>2^bitSize - 1\<close> (a range error, with that maximum as the number read). The pair returned
  is \<^verbatim>\<open>(i, err)\<close>.
\<close>

definition is_digit :: "char \<Rightarrow> bool" where
  "is_digit c = (48 \<le> (of_char c :: int) \<and> (of_char c :: int) \<le> 57)"

definition digit_val :: "char \<Rightarrow> int" where
  "digit_val c = (of_char c :: int) - 48"

fun ParseUint_digits :: "int \<Rightarrow> int \<Rightarrow> string \<Rightarrow> int \<times> strconv_err option" where
  "ParseUint_digits maxVal n [] = (n, None)"
| "ParseUint_digits maxVal n (c # cs) =
     (if \<not> is_digit c then (0, Some ErrSyntax)
      else if n \<ge> (2 ^ 64 - 1) div 10 + 1 then (maxVal, Some ErrRange)
      else let n1 = n * 10 + digit_val c
           in if n1 \<ge> 2 ^ 64 \<or> n1 > maxVal then (maxVal, Some ErrRange)
              else ParseUint_digits maxVal n1 cs)"

definition ParseUint :: "string \<Rightarrow> int \<Rightarrow> int \<times> strconv_err option" where
  "ParseUint s bitSize =
     (if s = [] then (0, Some ErrSyntax)
      else if bitSize < 0 \<or> bitSize > 64 then (0, Some ErrBitSize)
      else let bs = (if bitSize = 0 then 64 else nat bitSize)
           in ParseUint_digits (2 ^ bs - 1) 0 s)"

definition ParseInt :: "string \<Rightarrow> int \<Rightarrow> 64 word \<times> error option" where
  "ParseInt s0 bitSize =
     (if s0 = [] then (0, Some (NumError ''ParseInt'' s0 ErrSyntax))
      else let neg = (hd s0 = CHR ''-'');
               s = (if hd s0 = CHR ''+'' \<or> hd s0 = CHR ''-'' then tl s0 else s0)
           in case ParseUint s bitSize of
                (un, Some ErrSyntax) \<Rightarrow> (0, Some (NumError ''ParseInt'' s0 ErrSyntax))
              | (un, Some ErrBitSize) \<Rightarrow> (0, Some (NumError ''ParseInt'' s0 ErrBitSize))
              | (un, _) \<Rightarrow>
                  let bs = (if bitSize = 0 then 64 else nat bitSize);
                      cutoff = (2::int) ^ (bs - 1)
                  in if \<not> neg \<and> un \<ge> cutoff
                     then (word_of_int (cutoff - 1), Some (NumError ''ParseInt'' s0 ErrRange))
                     else if neg \<and> un > cutoff
                     then (word_of_int (- cutoff), Some (NumError ''ParseInt'' s0 ErrRange))
                     else (word_of_int (if neg then - un else un), None))"

subsection \<open>\<^verbatim>\<open>pgInteger\<close>\<close>

text \<open>
  A field name is a constant of the whole theory, so each field carries the name of its struct:
  \<open>int_n\<close> is \<^verbatim>\<open>pgInteger.n\<close>, and so on for the other structs below.
\<close>

record pgInteger =
  int_n :: "64 word"
  int_bs :: int
  int_valid :: bool

text \<open>
  \<^verbatim>\<open>Scan\<close> mutates the receiver and returns an error; the model returns the receiver after
  the call together with the error. \<^verbatim>\<open>k.valid = true\<close> is assigned before the type switch,
  and \<^verbatim>\<open>k.n\<close> is assigned whatever the conversion returned, also when it failed.
\<close>

definition is_native_int :: "'v src \<Rightarrow> bool" where
  "is_native_int x =
     (case x of SInt _ \<Rightarrow> True | SInt8 _ \<Rightarrow> True | SInt16 _ \<Rightarrow> True | SInt32 _ \<Rightarrow> True
      | SInt64 _ \<Rightarrow> True | SUint _ \<Rightarrow> True | SUint8 _ \<Rightarrow> True | SUint16 _ \<Rightarrow> True
      | SUint32 _ \<Rightarrow> True | SUint64 _ \<Rightarrow> True | _ \<Rightarrow> False)"

definition pgInteger_Scan :: "pgInteger \<Rightarrow> 'v src \<Rightarrow> pgInteger \<times> error option" where
  "pgInteger_Scan k x =
     (case x of
        SNil \<Rightarrow> (k\<lparr>int_valid := False\<rparr>, None)
      | SBytes b \<Rightarrow>
          (let k1 = k\<lparr>int_valid := True\<rparr>
           in case ParseInt b (int_bs k1) of (r, err) \<Rightarrow> (k1\<lparr>int_n := r\<rparr>, err))
      | SString s \<Rightarrow>
          (let k1 = k\<lparr>int_valid := True\<rparr>
           in case ParseInt s (int_bs k1) of (r, err) \<Rightarrow> (k1\<lparr>int_n := r\<rparr>, err))
      | _ \<Rightarrow>
          (let k1 = k\<lparr>int_valid := True\<rparr>
           in if is_native_int x
              then (case fitInt x (int_bs k1) of (r, err) \<Rightarrow> (k1\<lparr>int_n := r\<rparr>, err))
              else (k1, Some (CannotSetInteger (int_bs k1)))))"

definition pgInteger_IsNull :: "pgInteger \<Rightarrow> bool" where
  "pgInteger_IsNull k = (\<not> int_valid k)"

text \<open>
  \<^verbatim>\<open>fmt.Sprintf("%d", k.n)\<close>: the decimal digits of the signed value, after a minus sign when
  it is negative.
\<close>

function nat_digits :: "nat \<Rightarrow> string" where
  "nat_digits m =
     (if m < 10 then [char_of (48 + m)] else nat_digits (m div 10) @ [char_of (48 + m mod 10)])"
  by pat_completeness auto
termination
  by (relation "measure id") auto

declare nat_digits.simps [simp del]

definition Sprintf_d :: "64 word \<Rightarrow> string" where
  "Sprintf_d w = (if sint w < 0 then CHR ''-'' # nat_digits (nat (- sint w)) else nat_digits (nat (sint w)))"

definition pgInteger_bytes :: "pgInteger \<Rightarrow> bytes \<times> error option" where
  "pgInteger_bytes k = (if \<not> int_valid k then (nullBytes, None) else (Sprintf_d (int_n k), None))"

definition pgInteger_String :: "pgInteger \<Rightarrow> string" where
  "pgInteger_String k = (if \<not> int_valid k then [] else Sprintf_d (int_n k))"

definition pgInteger_Val :: "pgInteger \<Rightarrow> native" where
  "pgInteger_Val k = (if \<not> int_valid k then NNil else NInt64 (int_n k))"

text \<open>
  The constructors: \<^verbatim>\<open>newInt\<close> builds \<^verbatim>\<open>&pgInteger{0, bs, false}\<close> and scans the data into
  it, returning the value together with the error of the scan.
\<close>

definition newInt :: "int \<Rightarrow> 'v src \<Rightarrow> pgInteger \<times> error option" where
  "newInt b data = pgInteger_Scan \<lparr>int_n = 0, int_bs = b, int_valid = False\<rparr> data"

definition SmallInt :: "'v src \<Rightarrow> pgInteger \<times> error option" where
  "SmallInt data = newInt 16 data"

definition Integer :: "'v src \<Rightarrow> pgInteger \<times> error option" where
  "Integer data = newInt 32 data"

definition BigInt :: "'v src \<Rightarrow> pgInteger \<times> error option" where
  "BigInt data = newInt 64 data"

section \<open>Booleans: \<^verbatim>\<open>pgBool\<close>\<close>

record pgBool =
  bool_b :: bool
  bool_valid :: bool

text \<open>
  \<^verbatim>\<open>Scan\<close> reads \<^verbatim>\<open>x[0]\<close> of a string or byte slice without looking at its length: on an
  empty input the index is out of range and the call panics.
\<close>

definition leading_true :: "bytes \<Rightarrow> bool" where
  "leading_true x = (x ! 0 = CHR ''t'' \<or> x ! 0 = CHR ''1'')"

definition pgBool_Scan :: "pgBool \<Rightarrow> 'v src \<Rightarrow> (pgBool \<times> error option) outcome" where
  "pgBool_Scan k x =
     (case x of
        SNil \<Rightarrow> Returns (k\<lparr>bool_valid := False\<rparr>, None)
      | SString s \<Rightarrow>
          (let k1 = k\<lparr>bool_valid := True, bool_b := False\<rparr>
           in if length s = 0 then Panics IndexOutOfRange
              else Returns (if leading_true s then k1\<lparr>bool_b := True\<rparr> else k1, None))
      | SInt i \<Rightarrow>
          (let k1 = k\<lparr>bool_valid := True, bool_b := False\<rparr>
           in Returns (if i = 1 then k1\<lparr>bool_b := True\<rparr> else k1, None))
      | SBytes s \<Rightarrow>
          (let k1 = k\<lparr>bool_valid := True, bool_b := False\<rparr>
           in if length s = 0 then Panics IndexOutOfRange
              else Returns (if leading_true s then k1\<lparr>bool_b := True\<rparr> else k1, None))
      | SBool v \<Rightarrow> Returns (k\<lparr>bool_valid := True, bool_b := v\<rparr>, None)
      | _ \<Rightarrow> Returns (k\<lparr>bool_valid := True, bool_b := False\<rparr>, Some CannotSetBoolean))"

definition pgBool_IsNull :: "pgBool \<Rightarrow> bool" where
  "pgBool_IsNull k = (\<not> bool_valid k)"

definition pgBool_String :: "pgBool \<Rightarrow> string" where
  "pgBool_String k = (if \<not> bool_valid k then [] else if bool_b k then ''t'' else ''f'')"

definition pgBool_bytes :: "pgBool \<Rightarrow> bytes \<times> error option" where
  "pgBool_bytes k = (if \<not> bool_valid k then (nullBytes, None) else (pgBool_String k, None))"

definition pgBool_Val :: "pgBool \<Rightarrow> native" where
  "pgBool_Val k = (if \<not> bool_valid k then NNil else NBool (bool_b k))"

definition Bool :: "'v src \<Rightarrow> (pgBool \<times> error option) outcome" where
  "Bool data = pgBool_Scan \<lparr>bool_b = False, bool_valid = False\<rparr> data"

section \<open>Text: \<^verbatim>\<open>pgText\<close>, \<^verbatim>\<open>Text\<close>, \<^verbatim>\<open>VarChar\<close> and \<^verbatim>\<open>Char\<close>\<close>

subsection \<open>The standard library calls of \<^verbatim>\<open>pgText.Scan\<close>\<close>

text \<open>
  \<^verbatim>\<open>strings.TrimRight(s, " ")\<close> removes the trailing space bytes.
\<close>

fun TrimRight_space :: "string \<Rightarrow> string" where
  "TrimRight_space [] = []"
| "TrimRight_space (c # cs) =
     (let r = TrimRight_space cs in if r = [] \<and> c = CHR '' '' then [] else c # r)"

text \<open>
  \<^verbatim>\<open>utf8.RuneCountInString\<close>: the number of code points of a string. A byte that starts no
  well-formed UTF-8 sequence counts as one code point of width one. \<open>utf8_seq lo hi sz cs\<close>
  is the width of a sequence whose first byte announces \<open>sz\<close> bytes and whose second byte
  must lie between \<open>lo\<close> and \<open>hi\<close>; \<open>cs\<close> are the bytes after the first.
\<close>

definition byte_in :: "nat \<Rightarrow> nat \<Rightarrow> char \<Rightarrow> bool" where
  "byte_in lo hi c = (lo \<le> (of_char c :: nat) \<and> (of_char c :: nat) \<le> hi)"

definition utf8_seq :: "nat \<Rightarrow> nat \<Rightarrow> nat \<Rightarrow> string \<Rightarrow> nat" where
  "utf8_seq lo hi sz cs =
     (if length cs + 1 < sz then 1
      else if \<not> byte_in lo hi (cs ! 0) then 1
      else if sz = 2 then 2
      else if \<not> byte_in 0x80 0xBF (cs ! 1) then 1
      else if sz = 3 then 3
      else if \<not> byte_in 0x80 0xBF (cs ! 2) then 1
      else sz)"

definition rune_width :: "char \<Rightarrow> string \<Rightarrow> nat" where
  "rune_width c cs =
     (let b = (of_char c :: nat) in
      if b < 0x80 then 1
      else if b < 0xC2 then 1
      else if b \<le> 0xDF then utf8_seq 0x80 0xBF 2 cs
      else if b = 0xE0 then utf8_seq 0xA0 0xBF 3 cs
      else if b = 0xED then utf8_seq 0x80 0x9F 3 cs
      else if b \<le> 0xEF then utf8_seq 0x80 0xBF 3 cs
      else if b = 0xF0 then utf8_seq 0x90 0xBF 4 cs
      else if b \<le> 0xF3 then utf8_seq 0x80 0xBF 4 cs
      else if b = 0xF4 then utf8_seq 0x80 0x8F 4 cs
      else 1)"

function RuneCountInString :: "string \<Rightarrow> nat" where
  "RuneCountInString [] = 0"
| "RuneCountInString (c # cs) = Suc (RuneCountInString (drop (rune_width c cs - 1) cs))"
  by pat_completeness auto
termination
  by (relation "measure length") auto

text \<open>
  \<^verbatim>\<open>fmt.Sprintf("%-" + strconv.Itoa(n) + "s", s)\<close>, which is only reached with
  \<open>0 \<le> len(s) < n\<close>: the string, padded with spaces on the right up to a width of \<open>n\<close>. The
  package \<^verbatim>\<open>fmt\<close> measures the width in code points, not in bytes. It reads the digits of
  the width from the left and gives up as soon as the number read so far exceeds \<open>10\<^sup>6\<close> while
  a digit is still to come, that is for every width from \<open>10000010\<close> on: the rest of the format
  is then dropped, and the result is the text \<open>%!(NOVERB)\<close> followed by the unused argument as
  \<open>%!(EXTRA string=\<close>, the string and a closing parenthesis.
\<close>

definition fmt_width_refused :: "int \<Rightarrow> bool" where
  "fmt_width_refused w = (w div 10 > 1000000)"

definition Sprintf_left_justified :: "int \<Rightarrow> string \<Rightarrow> string" where
  "Sprintf_left_justified w s =
     (if fmt_width_refused w then ''%!(NOVERB)%!(EXTRA string='' @ s @ '')''
      else s @ replicate (nat w - RuneCountInString s) (CHR '' ''))"

subsection \<open>\<^verbatim>\<open>pgText\<close>\<close>

record pgText =
  text_s :: string
  text_n :: int
  text_p :: bool
  text_valid :: bool

text \<open>
  The part of \<^verbatim>\<open>Scan\<close> after the type switch, on the string just stored in \<^verbatim>\<open>k.s\<close>.
\<close>

definition pgText_fit :: "pgText \<Rightarrow> pgText \<times> error option" where
  "pgText_fit k =
     (if text_p k then
        (let k1 = k\<lparr>text_s := TrimRight_space (text_s k)\<rparr>
         in if int (length (text_s k1)) > text_n k1
            then (k1, Some (CannotFitChar (text_s k1) (text_n k1)))
            else if int (length (text_s k1)) < text_n k1
            then (k1\<lparr>text_s := Sprintf_left_justified (text_n k1) (text_s k1)\<rparr>, None)
            else (k1, None))
      else if text_n k > 0 \<and> int (length (text_s k)) > text_n k
      then (k\<lparr>text_s := take (nat (text_n k)) (text_s k)\<rparr>, None)
      else (k, None))"

definition pgText_Scan :: "pgText \<Rightarrow> 'v src \<Rightarrow> pgText \<times> error option" where
  "pgText_Scan k x =
     (case x of
        SNil \<Rightarrow> (k\<lparr>text_valid := False\<rparr>, None)
      | SString s \<Rightarrow> pgText_fit (k\<lparr>text_valid := True, text_s := s\<rparr>)
      | SBytes s \<Rightarrow> pgText_fit (k\<lparr>text_valid := True, text_s := s\<rparr>)
      | _ \<Rightarrow> (k\<lparr>text_valid := True\<rparr>, Some CannotSetString))"

definition pgText_IsNull :: "pgText \<Rightarrow> bool" where
  "pgText_IsNull k = (\<not> text_valid k)"

definition pgText_bytes :: "pgText \<Rightarrow> bytes \<times> error option" where
  "pgText_bytes k = (if \<not> text_valid k then (nullBytes, None) else (text_s k, None))"

definition pgText_String :: "pgText \<Rightarrow> string" where
  "pgText_String k = (if \<not> text_valid k then [] else text_s k)"

definition pgText_Val :: "pgText \<Rightarrow> native" where
  "pgText_Val k = (if \<not> text_valid k then NNil else NString (text_s k))"

text \<open>
  \<^verbatim>\<open>Text\<close> returns the value together with the error of the scan. \<^verbatim>\<open>VarChar(n)\<close> and
  \<^verbatim>\<open>Char(n)\<close> return no value when the scan fails.
\<close>

definition Text :: "'v src \<Rightarrow> pgText \<times> error option" where
  "Text data = pgText_Scan \<lparr>text_s = [], text_n = 0, text_p = False, text_valid = False\<rparr> data"

definition VarChar :: "int \<Rightarrow> 'v src \<Rightarrow> error + pgText" where
  "VarChar w data =
     (case pgText_Scan \<lparr>text_s = [], text_n = w, text_p = False, text_valid = False\<rparr> data of
        (k, Some err) \<Rightarrow> Inl err
      | (k, None) \<Rightarrow> Inr k)"

definition Char_value :: "int \<Rightarrow> 'v src \<Rightarrow> error + pgText" where
  "Char_value w data =
     (case pgText_Scan \<lparr>text_s = [], text_n = w, text_p = True, text_valid = False\<rparr> data of
        (k, Some err) \<Rightarrow> Inl err
      | (k, None) \<Rightarrow> Inr k)"

section \<open>Byte-slice helpers of the standard library\<close>

text \<open>
  \<^verbatim>\<open>bytes.Replace(s, old, new, -1)\<close>: every non-overlapping occurrence of \<open>old\<close> in \<open>s\<close>,
  found from the left, is replaced by \<open>new\<close>. Every call in this package passes a non-empty
  \<open>old\<close>; for an empty \<open>old\<close> (where Go inserts \<open>new\<close> around every code point) the model
  returns \<open>s\<close> unchanged.
\<close>

function bytes_Replace :: "bytes \<Rightarrow> bytes \<Rightarrow> bytes \<Rightarrow> bytes" where
  "bytes_Replace [] old new = []"
| "bytes_Replace (c # cs) old new =
     (if old \<noteq> [] \<and> take (length old) (c # cs) = old
      then new @ bytes_Replace (drop (length old) (c # cs)) old new
      else c # bytes_Replace cs old new)"
  by pat_completeness auto
termination
  by (relation "measure (\<lambda>(s, old, new). length s)") auto

text \<open>\<^verbatim>\<open>bytes.Join(parts, sep)\<close>.\<close>

fun bytes_Join :: "bytes list \<Rightarrow> bytes \<Rightarrow> bytes" where
  "bytes_Join [] sep = []"
| "bytes_Join [p] sep = p"
| "bytes_Join (p # q # ps) sep = p @ sep @ bytes_Join (q # ps) sep"

text \<open>
  The slice expression \<^verbatim>\<open>s[a:b]\<close>, for indices already known to be in range
  (\<open>0 \<le> a \<le> b \<le> len(s)\<close>), and the check that they are; Go panics when they are not.
\<close>

definition slice_ok :: "bytes \<Rightarrow> int \<Rightarrow> int \<Rightarrow> bool" where
  "slice_ok s a b = (0 \<le> a \<and> a \<le> b \<and> b \<le> int (length s))"

definition subslice :: "bytes \<Rightarrow> int \<Rightarrow> int \<Rightarrow> bytes" where
  "subslice s a b = take (nat (b - a)) (drop (nat a) s)"

section \<open>The key/value store: \<^verbatim>\<open>parseHStore\<close> and \<^verbatim>\<open>pgHStore\<close>\<close>

text \<open>
  The local variables of \<^verbatim>\<open>parseHStore\<close> other than the loop index.
\<close>

record hstore_vars =
  hv_st :: nat
  hv_ka :: int
  hv_kz :: int
  hv_va :: int
  hv_vz :: int
  hv_m :: "(string \<times> string) list"

text \<open>
  The guard \<^verbatim>\<open>b == 'N' && s[i+1] == 'U' && s[i+2] == 'L' && s[i+3] == 'L'\<close>. The operator
  \<^verbatim>\<open>&&\<close> evaluates from the left and stops at the first false operand; an index past the
  end of \<open>s\<close> panics.
\<close>

definition null_at :: "bytes \<Rightarrow> nat \<Rightarrow> bool outcome" where
  "null_at s i =
     (if s ! i \<noteq> CHR ''N'' then Returns False
      else if i + 1 \<ge> length s then Panics IndexOutOfRange
      else if s ! (i + 1) \<noteq> CHR ''U'' then Returns False
      else if i + 2 \<ge> length s then Panics IndexOutOfRange
      else if s ! (i + 2) \<noteq> CHR ''L'' then Returns False
      else if i + 3 \<ge> length s then Panics IndexOutOfRange
      else Returns (s ! (i + 3) = CHR ''L''))"

text \<open>
  The \<^verbatim>\<open>switch\<close> of the loop body at index \<open>i\<close>. The first component of the result tells
  whether the backslash case ran, which skips the next byte (\<^verbatim>\<open>i++\<close>).
\<close>

definition hstore_switch :: "bytes \<Rightarrow> nat \<Rightarrow> hstore_vars \<Rightarrow> (bool \<times> hstore_vars) outcome" where
  "hstore_switch s i v =
     (let b = s ! i in
      if b = bslash then Returns (True, v)
      else if hv_st v = 0 then
        Returns (False, if b = dquote then v\<lparr>hv_ka := int i + 1, hv_st := 1\<rparr> else v)
      else if hv_st v = 1 then
        Returns (False, if b = dquote then v\<lparr>hv_kz := int i - 1, hv_st := 2\<rparr> else v)
      else if hv_st v = 2 then
        (case null_at s i of
           Panics p \<Rightarrow> Panics p
         | Returns True \<Rightarrow> Returns (False, v\<lparr>hv_va := int i, hv_vz := int i + 3, hv_st := 0\<rparr>)
         | Returns False \<Rightarrow>
             Returns (False, if b = dquote then v\<lparr>hv_va := int i + 1, hv_st := 3\<rparr> else v))
      else if hv_st v = 3 then
        Returns (False, if b = dquote then v\<lparr>hv_vz := int i - 1, hv_st := 0\<rparr> else v)
      else Returns (False, v))"

text \<open>
  The end of the loop body: once a key and a value are both delimited, the pair is stored,
  unless the value is the four bytes \<open>NULL\<close>, and the four marks are reset.
\<close>

definition hstore_unescape :: "bytes \<Rightarrow> bytes" where
  "hstore_unescape x =
     bytes_Replace (bytes_Replace x [bslash, bslash] [bslash]) [bslash, dquote] [dquote]"

definition hstore_collect :: "bytes \<Rightarrow> hstore_vars \<Rightarrow> hstore_vars outcome" where
  "hstore_collect s v =
     (if hv_kz v \<noteq> - 1 \<and> hv_vz v \<noteq> - 1 then
        if \<not> slice_ok s (hv_ka v) (hv_kz v + 1) then Panics IndexOutOfRange
        else if \<not> slice_ok s (hv_va v) (hv_vz v + 1) then Panics IndexOutOfRange
        else
          let key = subslice s (hv_ka v) (hv_kz v + 1);
              val = subslice s (hv_va v) (hv_vz v + 1);
              v1 = (if val = ''NULL'' then v
                    else v\<lparr>hv_m := map_set (hv_m v) (hstore_unescape key) (hstore_unescape val)\<rparr>)
          in Returns (v1\<lparr>hv_ka := - 1, hv_kz := - 1, hv_va := - 1, hv_vz := - 1\<rparr>)
      else Returns v)"

function parseHStore_from ::
  "bytes \<Rightarrow> nat \<Rightarrow> hstore_vars \<Rightarrow> (string \<times> string) list outcome" where
  "parseHStore_from s i v =
     (if i < length s then
        (case hstore_switch s i v of
           Panics p \<Rightarrow> Panics p
         | Returns (skip, v1) \<Rightarrow>
             (case hstore_collect s v1 of
                Panics p \<Rightarrow> Panics p
              | Returns v2 \<Rightarrow> parseHStore_from s (if skip then i + 2 else i + 1) v2))
      else Returns (hv_m v))"
  by pat_completeness auto
termination
  by (relation "measure (\<lambda>(s, i, v). length s - i)") auto

declare parseHStore_from.simps [simp del]

text \<open>\<^verbatim>\<open>parseHStore\<close> never returns an error; its result is the map, unless it panics.\<close>

definition parseHStore :: "bytes \<Rightarrow> (string \<times> string) list outcome" where
  "parseHStore s =
     parseHStore_from s 0
       \<lparr>hv_st = 0, hv_ka = - 1, hv_kz = - 1, hv_va = - 1, hv_vz = - 1, hv_m = []\<rparr>"

record pgHStore =
  hstore_m :: "(string \<times> pgText) list"
  hstore_valid :: bool

text \<open>
  The last loop of \<^verbatim>\<open>pgHStore.Scan\<close> stores \<^verbatim>\<open>Text(val)\<close> under each key, and returns
  the first error of \<^verbatim>\<open>Text\<close>, if any.
\<close>

fun hstore_fill :: "pgHStore \<Rightarrow> (string \<times> string) list \<Rightarrow> pgHStore \<times> error option" where
  "hstore_fill k [] = (k, None)"
| "hstore_fill k ((key, val) # rest) =
     (case Text (SString val :: unit src) of
        (vx, Some err) \<Rightarrow> (k, Some err)
      | (vx, None) \<Rightarrow> hstore_fill (k\<lparr>hstore_m := map_set (hstore_m k) key vx\<rparr>) rest)"

definition pgHStore_Scan :: "pgHStore \<Rightarrow> 'v src \<Rightarrow> (pgHStore \<times> error option) outcome" where
  "pgHStore_Scan k x =
     (let k0 = k\<lparr>hstore_m := []\<rparr> in
      case x of
        SNil \<Rightarrow> Returns (k0\<lparr>hstore_valid := False\<rparr>, None)
      | SBytes s \<Rightarrow>
          (case parseHStore s of
             Panics p \<Rightarrow> Panics p
           | Returns keyvals \<Rightarrow> Returns (hstore_fill (k0\<lparr>hstore_valid := True\<rparr>) keyvals))
      | SMap keyvals \<Rightarrow> Returns (hstore_fill (k0\<lparr>hstore_valid := True\<rparr>) keyvals)
      | _ \<Rightarrow> Returns (k0\<lparr>hstore_valid := True\<rparr>, Some CannotSetHStore))"

definition pgHStore_IsNull :: "pgHStore \<Rightarrow> bool" where
  "pgHStore_IsNull k = (\<not> hstore_valid k)"

text \<open>\<^verbatim>\<open>ValueBy\<close> returns nil (\<open>None\<close>) for a key that is not in the map.\<close>

definition pgHStore_ValueBy :: "pgHStore \<Rightarrow> string \<Rightarrow> pgText option" where
  "pgHStore_ValueBy k name = map_of (hstore_m k) name"

text \<open>
  \<^verbatim>\<open>Val\<close> asserts that the native form of every value is a string, which fails on a value
  that is NULL.
\<close>

fun hstore_vals :: "(string \<times> string) list \<Rightarrow> (string \<times> pgText) list
                    \<Rightarrow> (string \<times> string) list outcome" where
  "hstore_vals vals [] = Returns vals"
| "hstore_vals vals ((key, v) # rest) =
     (case pgText_Val v of
        NString s \<Rightarrow> hstore_vals (map_set vals key s) rest
      | _ \<Rightarrow> Panics FailedTypeAssertion)"

definition pgHStore_Val :: "pgHStore \<Rightarrow> native outcome" where
  "pgHStore_Val k =
     (if \<not> hstore_valid k then Returns NNil
      else case hstore_vals [] (hstore_m k) of
             Panics p \<Rightarrow> Panics p
           | Returns vals \<Rightarrow> Returns (NMap vals))"

text \<open>
  \<^verbatim>\<open>bytes()\<close> ranges over the map and renders each entry with
  \<^verbatim>\<open>fmt.Sprintf(`"%s" => "%s"`, key, val)\<close>, which prints the value through its
  \<^verbatim>\<open>String()\<close> method. The method does not look at \<^verbatim>\<open>k.valid\<close>.
\<close>

definition hstore_entry :: "string \<times> pgText \<Rightarrow> bytes" where
  "hstore_entry e =
     [dquote] @ fst e @ [dquote] @ '' => '' @ [dquote] @ pgText_String (snd e) @ [dquote]"

definition pgHStore_bytes :: "pgHStore \<Rightarrow> bytes \<times> error option" where
  "pgHStore_bytes k = (bytes_Join (map hstore_entry (hstore_m k)) '','', None)"

definition pgHStore_String :: "pgHStore \<Rightarrow> string" where
  "pgHStore_String k = (if \<not> hstore_valid k then [] else fst (pgHStore_bytes k))"

definition HStore :: "'v src \<Rightarrow> (pgHStore \<times> error option) outcome" where
  "HStore data = pgHStore_Scan \<lparr>hstore_m = [], hstore_valid = False\<rparr> data"

text \<open>The hstore literal of the test suite, as the bytes the decode receives.\<close>

definition hstore_example :: bytes where
  "hstore_example =
     [dquote] @ ''k1'' @ [dquote] @ '' => '' @ [dquote] @ ''v1'' @ [dquote] @ '', ''
     @ [dquote] @ ''k'' @ [bslash, dquote] @ ''2'' @ [dquote] @ '' => ''
     @ [dquote, bslash, dquote] @ ''v2'' @ [bslash, dquote, dquote] @ '', ''
     @ [dquote] @ ''k3'' @ [dquote] @ '' => NULL''"

section \<open>The tokenizer: \<^verbatim>\<open>escape\<close> and \<^verbatim>\<open>split\<close>\<close>

text \<open>
  \<^verbatim>\<open>escape(s, t)\<close>: \<open>t = 0\<close> returns \<open>s\<close>; otherwise every backslash is doubled, and then
  every double quote becomes backslash-quote (\<open>t = 1\<close>) or two double quotes (\<open>t = 2\<close>).
\<close>

definition escape :: "bytes \<Rightarrow> int \<Rightarrow> bytes" where
  "escape s t =
     (if t = 0 then s
      else let s1 = bytes_Replace s [bslash] [bslash, bslash]
           in if t = 1 then bytes_Replace s1 [dquote] [bslash, dquote]
              else if t = 2 then bytes_Replace s1 [dquote] [dquote, dquote]
              else s1)"

text \<open>
  \<^verbatim>\<open>hex.DecodeString\<close>, of which \<^verbatim>\<open>split\<close> keeps the bytes and drops the error: the bytes
  decoded from the pairs of hexadecimal digits, up to the first pair that is not one.
\<close>

definition hex_val :: "char \<Rightarrow> nat option" where
  "hex_val c =
     (let b = (of_char c :: nat) in
      if 48 \<le> b \<and> b \<le> 57 then Some (b - 48)
      else if 97 \<le> b \<and> b \<le> 102 then Some (b - 87)
      else if 65 \<le> b \<and> b \<le> 70 then Some (b - 55)
      else None)"

fun hex_Decode :: "bytes \<Rightarrow> bytes" where
  "hex_Decode (p # q # rest) =
     (case hex_val p of
        None \<Rightarrow> []
      | Some a \<Rightarrow> (case hex_val q of
                     None \<Rightarrow> []
                   | Some b \<Rightarrow> char_of (a * 16 + b) # hex_Decode rest))"
| "hex_Decode _ = []"

text \<open>The local variables of \<^verbatim>\<open>split\<close> other than the loop index.\<close>

record split_vars =
  sv_parts :: "bytes list"
  sv_ignore :: bool
  sv_dep :: int
  sv_mode :: char
  sv_closer :: char
  sv_a :: int
  sv_z :: int

text \<open>
  The \<^verbatim>\<open>switch\<close> of the loop body at index \<open>i\<close>, its cases in the order of the source.
  The look-ahead \<^verbatim>\<open>s[i+1]\<close> of the row dialect is only reached when \<open>i\<close> is not the last
  index, since the end-of-input case comes first.
\<close>

definition split_inside :: "bytes \<Rightarrow> nat \<Rightarrow> split_vars \<Rightarrow> split_vars" where
  "split_inside s i v =
     (let b = s ! i in
      if \<not> sv_ignore v \<and> sv_mode v = CHR ''}'' \<and> b = bslash then v\<lparr>sv_ignore := True\<rparr>
      else if \<not> sv_ignore v \<and> sv_mode v = CHR '')'' \<and> b = dquote \<and> s ! (i + 1) = dquote
      then v\<lparr>sv_ignore := True\<rparr>
      else if sv_ignore v then v\<lparr>sv_ignore := False\<rparr>
      else if sv_closer v = CHR ''}'' \<and> (b = CHR ''{'' \<or> b = CHR ''}'') then
        (if b = CHR ''{'' then v\<lparr>sv_dep := sv_dep v + 1\<rparr>
         else if sv_dep v - 1 = 0 then v\<lparr>sv_dep := sv_dep v - 1, sv_z := int i\<rparr>
         else v\<lparr>sv_dep := sv_dep v - 1\<rparr>)
      else if sv_closer v = dquote \<and> b = sv_closer v then v\<lparr>sv_z := int i - 1\<rparr>
      else if sv_closer v = CHR '','' \<and> b = sv_closer v then v\<lparr>sv_z := int i - 1\<rparr>
      else v)"

definition split_switch :: "bytes \<Rightarrow> nat \<Rightarrow> split_vars \<Rightarrow> error + split_vars" where
  "split_switch s i v =
     (let b = s ! i in
      if i = 0 then
        (if b = CHR ''{'' then Inr (v\<lparr>sv_mode := CHR ''}''\<rparr>)
         else if b = CHR ''('' then Inr (v\<lparr>sv_mode := CHR '')''\<rparr>)
         else Inl (UnknownFormat s))
      else if sv_a v = - 1 then
        (if b = CHR '' '' \<or> b = CHR '','' then Inr v
         else if b = CHR ''{'' then
           Inr (v\<lparr>sv_a := int i, sv_dep := sv_dep v + 1, sv_closer := CHR ''}''\<rparr>)
         else if b = dquote then Inr (v\<lparr>sv_a := int i + 1, sv_closer := dquote\<rparr>)
         else Inr (v\<lparr>sv_a := int i, sv_closer := CHR '',''\<rparr>))
      else if i = length s - 1 then
        (if b \<noteq> sv_mode v then Inl (MissingCloser (sv_mode v) s)
         else Inr (v\<lparr>sv_z := int i - 1\<rparr>))
      else Inr (split_inside s i v))"

text \<open>
  The end of the loop body: once the end of an element is marked, \<^verbatim>\<open>s[a : z+1]\<close> is
  unescaped (first \<open>\\\\\<close> to \<open>\\\<close>, then the quote of the dialect), decoded from hexadecimal
  if it starts with \<open>\\x\<close>, and appended to the parts.
\<close>

definition split_unescape :: "char \<Rightarrow> bytes \<Rightarrow> bytes" where
  "split_unescape mode part =
     (let p1 = bytes_Replace part [bslash, bslash] [bslash];
          p2 = (if mode = CHR ''}'' then bytes_Replace p1 [bslash, dquote] [dquote]
                else if mode = CHR '')'' then bytes_Replace p1 [dquote, dquote] [dquote]
                else p1)
      in if length p2 \<ge> 2 \<and> p2 ! 0 = bslash \<and> p2 ! 1 = CHR ''x''
         then hex_Decode (drop 2 p2) else p2)"

definition split_collect :: "bytes \<Rightarrow> split_vars \<Rightarrow> split_vars outcome" where
  "split_collect s v =
     (if sv_z v \<noteq> - 1 then
        if \<not> slice_ok s (sv_a v) (sv_z v + 1) then Panics IndexOutOfRange
        else Returns (v\<lparr>sv_parts := sv_parts v
                                      @ [split_unescape (sv_mode v)
                                           (subslice s (sv_a v) (sv_z v + 1))],
                        sv_a := - 1, sv_z := - 1, sv_dep := 0\<rparr>)
      else Returns v)"

function split_from :: "bytes \<Rightarrow> nat \<Rightarrow> split_vars \<Rightarrow> (error + bytes list) outcome" where
  "split_from s i v =
     (if i < length s then
        (case split_switch s i v of
           Inl e \<Rightarrow> Returns (Inl e)
         | Inr v1 \<Rightarrow>
             (case split_collect s v1 of
                Panics p \<Rightarrow> Panics p
              | Returns v2 \<Rightarrow> split_from s (i + 1) v2))
      else Returns (Inr (sv_parts v)))"
  by pat_completeness auto
termination
  by (relation "measure (\<lambda>(s, i, v). length s - i)") auto

declare split_from.simps [simp del]

definition split :: "bytes \<Rightarrow> (error + bytes list) outcome" where
  "split s =
     split_from s 0
       \<lparr>sv_parts = [], sv_ignore = False, sv_dep = 0, sv_mode = CHR 0x00, sv_closer = CHR 0x00,
        sv_a = - 1, sv_z = - 1\<rparr>"

text \<open>\<^verbatim>\<open>srcToBytes\<close>.\<close>

definition srcToBytes :: "'v src \<Rightarrow> bytes \<times> error option" where
  "srcToBytes x =
     (case x of
        SString s \<Rightarrow> (s, None)
      | SBytes b \<Rightarrow> (b, None)
      | _ \<Rightarrow> ([], Some CannotParseIntoValue))"

text \<open>
  What the two dialects of \<^verbatim>\<open>escape\<close> do to one byte, and the state of \<^verbatim>\<open>split\<close> while it
  is inside a quoted element of a literal whose closing delimiter is \<open>m\<close>.
\<close>

definition esc1 :: "char \<Rightarrow> bytes" where
  "esc1 c = (if c = bslash then [bslash, bslash] else if c = dquote then [bslash, dquote] else [c])"

definition esc2 :: "char \<Rightarrow> bytes" where
  "esc2 c = (if c = bslash then [bslash, bslash] else if c = dquote then [dquote, dquote] else [c])"

definition in_quoted :: "char \<Rightarrow> split_vars \<Rightarrow> bool" where
  "in_quoted m v = (sv_mode v = m \<and> sv_closer v = dquote \<and> sv_a v \<noteq> - 1 \<and> sv_z v = - 1
                    \<and> \<not> sv_ignore v)"

text \<open>
  The element \<^verbatim>\<open>split\<close> produces from the quoted and escaped bytes \<open>s\<close>: the bytes
  themselves, unless they start with \<open>\\x\<close>, when the rest is decoded from hexadecimal.
\<close>

definition hex_prefixed :: "bytes \<Rightarrow> bool" where
  "hex_prefixed s = (length s \<ge> 2 \<and> s ! 0 = bslash \<and> s ! 1 = CHR ''x'')"

definition quoted_element :: "bytes \<Rightarrow> bytes" where
  "quoted_element s = (if hex_prefixed s then hex_Decode (drop 2 s) else s)"

section \<open>Floats: \<^verbatim>\<open>pgFloat\<close>\<close>

text \<open>
  The comparison \<^verbatim>\<open>x > y\<close> of two \<^verbatim>\<open>float64\<close>: false whenever one side is not a
  number. \<^verbatim>\<open>math.MaxFloat32\<close> is \<open>(2 - 2\<^sup>-\<^sup>2\<^sup>3) \<times> 2\<^sup>1\<^sup>2\<^sup>7\<close>, which is the integer below.
\<close>

fun float64_gt :: "float64 \<Rightarrow> float64 \<Rightarrow> bool" where
  "float64_gt (Finite a) (Finite b) = (a > b)"
| "float64_gt PosInf (Finite b) = True"
| "float64_gt PosInf NegInf = True"
| "float64_gt (Finite a) NegInf = True"
| "float64_gt _ _ = False"

definition MaxFloat32 :: float64 where
  "MaxFloat32 = Finite ((2 ^ 24 - 1) * 2 ^ 104)"

record pgFloat =
  float_n :: float64
  float_bs :: int
  float_valid :: bool

text \<open>
  \<^verbatim>\<open>strconv.ParseFloat\<close> and \<^verbatim>\<open>strconv.FormatFloat\<close> are parameters of the model:
  \<open>parseFloat s bitSize\<close> is the pair \<^verbatim>\<open>(f, err)\<close> of \<^verbatim>\<open>ParseFloat(s, bitSize)\<close>, and
  \<open>formatFloat f fmt prec bitSize\<close> is \<^verbatim>\<open>FormatFloat(f, fmt, prec, bitSize)\<close>. A
  \<^verbatim>\<open>float32\<close> input converts to \<^verbatim>\<open>float64\<close> without change of value.
\<close>

definition pgFloat_Scan ::
  "(string \<Rightarrow> int \<Rightarrow> float64 \<times> error option) \<Rightarrow> pgFloat \<Rightarrow> 'v src \<Rightarrow> pgFloat \<times> error option" where
  "pgFloat_Scan parseFloat k x =
     (case x of
        SNil \<Rightarrow> (k\<lparr>float_valid := False\<rparr>, None)
      | SFloat64 f \<Rightarrow>
          (let k1 = k\<lparr>float_valid := True\<rparr>
           in if float_bs k1 = 32 \<and> float64_gt f MaxFloat32 then (k1, Some (CannotFitReal f))
              else (k1\<lparr>float_n := f\<rparr>, None))
      | SFloat32 f \<Rightarrow> (k\<lparr>float_valid := True, float_n := f\<rparr>, None)
      | SString s \<Rightarrow>
          (let k1 = k\<lparr>float_valid := True\<rparr>
           in case parseFloat s (float_bs k1) of (f, err) \<Rightarrow> (k1\<lparr>float_n := f\<rparr>, err))
      | SBytes s \<Rightarrow>
          (let k1 = k\<lparr>float_valid := True\<rparr>
           in case parseFloat s (float_bs k1) of (f, err) \<Rightarrow> (k1\<lparr>float_n := f\<rparr>, err))
      | _ \<Rightarrow> (k\<lparr>float_valid := True\<rparr>, Some (CannotSetFloat (float_bs k))))"

definition pgFloat_IsNull :: "pgFloat \<Rightarrow> bool" where
  "pgFloat_IsNull k = (\<not> float_valid k)"

definition pgFloat_String :: "(float64 \<Rightarrow> char \<Rightarrow> int \<Rightarrow> int \<Rightarrow> string) \<Rightarrow> pgFloat \<Rightarrow> string" where
  "pgFloat_String formatFloat k =
     (if \<not> float_valid k then [] else formatFloat (float_n k) (CHR ''f'') (- 1) 32)"

definition pgFloat_bytes ::
  "(float64 \<Rightarrow> char \<Rightarrow> int \<Rightarrow> int \<Rightarrow> string) \<Rightarrow> pgFloat \<Rightarrow> bytes \<times> error option" where
  "pgFloat_bytes formatFloat k =
     (if \<not> float_valid k then (nullBytes, None) else (pgFloat_String formatFloat k, None))"

definition pgFloat_Val :: "pgFloat \<Rightarrow> native" where
  "pgFloat_Val k = (if \<not> float_valid k then NNil else NFloat64 (float_n k))"

definition newFloat ::
  "(string \<Rightarrow> int \<Rightarrow> float64 \<times> error option) \<Rightarrow> int \<Rightarrow> 'v src \<Rightarrow> pgFloat \<times> error option" where
  "newFloat parseFloat b data =
     pgFloat_Scan parseFloat \<lparr>float_n = Finite 0, float_bs = b, float_valid = False\<rparr> data"

definition Real :: "(string \<Rightarrow> int \<Rightarrow> float64 \<times> error option) \<Rightarrow> 'v src \<Rightarrow> pgFloat \<times> error option" where
  "Real parseFloat data = newFloat parseFloat 32 data"

definition Double :: "(string \<Rightarrow> int \<Rightarrow> float64 \<times> error option) \<Rightarrow> 'v src \<Rightarrow> pgFloat \<times> error option" where
  "Double parseFloat data = newFloat parseFloat 64 data"

section \<open>Byte strings, decimals and enumerations\<close>

record pgBytea =
  bytea_b :: bytes
  bytea_valid :: bool

definition pgBytea_Scan :: "pgBytea \<Rightarrow> 'v src \<Rightarrow> pgBytea \<times> error option" where
  "pgBytea_Scan k x =
     (case x of
        SNil \<Rightarrow> (k\<lparr>bytea_valid := False\<rparr>, None)
      | SBytes s \<Rightarrow> (k\<lparr>bytea_valid := True, bytea_b := s\<rparr>, None)
      | _ \<Rightarrow> (k\<lparr>bytea_valid := True\<rparr>, Some CannotSetBytea))"

definition pgBytea_IsNull :: "pgBytea \<Rightarrow> bool" where
  "pgBytea_IsNull k = (\<not> bytea_valid k)"

text \<open>\<^verbatim>\<open>fmt.Sprintf("\\x%x", k.b)\<close>: two lower-case hexadecimal digits for each byte.\<close>

definition hex_digit :: "nat \<Rightarrow> char" where
  "hex_digit d = ''0123456789abcdef'' ! d"

definition hex_Encode :: "bytes \<Rightarrow> bytes" where
  "hex_Encode b =
     concat (map (\<lambda>c. [hex_digit ((of_char c :: nat) div 16), hex_digit ((of_char c :: nat) mod 16)])
                 b)"

definition pgBytea_bytes :: "pgBytea \<Rightarrow> bytes \<times> error option" where
  "pgBytea_bytes k =
     (if \<not> bytea_valid k then (nullBytes, None)
      else ([bslash, CHR ''x''] @ hex_Encode (bytea_b k), None))"

definition pgBytea_String :: "pgBytea \<Rightarrow> string" where
  "pgBytea_String k = (if \<not> bytea_valid k then [] else bytea_b k)"

definition pgBytea_Val :: "pgBytea \<Rightarrow> native" where
  "pgBytea_Val k = (if \<not> bytea_valid k then NNil else NBytes (bytea_b k))"

record pgNumeric =
  num_s :: string
  num_prec :: int
  num_scale :: int
  num_valid :: bool

definition pgNumeric_Scan ::
  "(float64 \<Rightarrow> char \<Rightarrow> int \<Rightarrow> int \<Rightarrow> string) \<Rightarrow> pgNumeric \<Rightarrow> 'v src \<Rightarrow> pgNumeric \<times> error option" where
  "pgNumeric_Scan formatFloat k x =
     (case x of
        SNil \<Rightarrow> (k\<lparr>num_valid := False\<rparr>, None)
      | SFloat32 f \<Rightarrow>
          (k\<lparr>num_valid := True, num_s := formatFloat f (CHR ''f'') (num_scale k) 64\<rparr>, None)
      | SFloat64 f \<Rightarrow>
          (k\<lparr>num_valid := True, num_s := formatFloat f (CHR ''f'') (num_scale k) 64\<rparr>, None)
      | SString s \<Rightarrow> (k\<lparr>num_valid := True, num_s := s\<rparr>, None)
      | SBytes s \<Rightarrow> (k\<lparr>num_valid := True, num_s := s\<rparr>, None)
      | _ \<Rightarrow> (k\<lparr>num_valid := True\<rparr>, Some (CannotSetNumeric (num_prec k) (num_scale k))))"

definition pgNumeric_IsNull :: "pgNumeric \<Rightarrow> bool" where
  "pgNumeric_IsNull k = (\<not> num_valid k)"

definition pgNumeric_bytes :: "pgNumeric \<Rightarrow> bytes \<times> error option" where
  "pgNumeric_bytes k = (if \<not> num_valid k then (nullBytes, None) else (num_s k, None))"

definition pgNumeric_String :: "pgNumeric \<Rightarrow> string" where
  "pgNumeric_String k = (if \<not> num_valid k then [] else num_s k)"

definition pgNumeric_Val :: "pgNumeric \<Rightarrow> native" where
  "pgNumeric_Val k = (if \<not> num_valid k then NNil else NString (num_s k))"

record pgEnum =
  enum_s :: string
  enum_ls :: "string list"
  enum_valid :: bool

text \<open>
  After the type switch \<^verbatim>\<open>pgEnum.Scan\<close> looks for \<^verbatim>\<open>k.s\<close> among the labels.
\<close>

definition pgEnum_check :: "pgEnum \<Rightarrow> pgEnum \<times> error option" where
  "pgEnum_check k =
     (if List.member (enum_ls k) (enum_s k) then (k, None)
      else (k, Some (EnumNotOneOf (enum_ls k))))"

definition pgEnum_Scan :: "pgEnum \<Rightarrow> 'v src \<Rightarrow> pgEnum \<times> error option" where
  "pgEnum_Scan k x =
     (case x of
        SNil \<Rightarrow> (k\<lparr>enum_valid := False\<rparr>, None)
      | SString s \<Rightarrow> pgEnum_check (k\<lparr>enum_valid := True, enum_s := s\<rparr>)
      | SBytes s \<Rightarrow> pgEnum_check (k\<lparr>enum_valid := True, enum_s := s\<rparr>)
      | _ \<Rightarrow> (k\<lparr>enum_valid := True\<rparr>, Some CannotSetEnum))"

definition pgEnum_IsNull :: "pgEnum \<Rightarrow> bool" where
  "pgEnum_IsNull k = (\<not> enum_valid k)"

definition pgEnum_bytes :: "pgEnum \<Rightarrow> bytes \<times> error option" where
  "pgEnum_bytes k = (if \<not> enum_valid k then (nullBytes, None) else (enum_s k, None))"

definition pgEnum_String :: "pgEnum \<Rightarrow> string" where
  "pgEnum_String k = (if \<not> enum_valid k then [] else enum_s k)"

definition pgEnum_Val :: "pgEnum \<Rightarrow> native" where
  "pgEnum_Val k = (if \<not> enum_valid k then NNil else NString (enum_s k))"

section \<open>Timestamps: \<^verbatim>\<open>pgTimestamp\<close>\<close>

record pgTimestamp =
  ts_t :: Time
  ts_tz :: string
  ts_valid :: bool

definition timeFormats :: "string list" where
  "timeFormats =
     [''2006-01-02 15:04:05-07'', ''2006-01-02 15:04:05'', ''2006-01-02 15:04'',
      ''15:04:05-07'', ''15:04:05'', ''2006-01-02'']"

text \<open>
  \<^verbatim>\<open>time.Parse\<close> is a parameter: \<open>timeParse f s\<close> is the time parsed, or \<open>None\<close> for an
  error, in which case \<^verbatim>\<open>time.Parse\<close> returns the zero time \<open>zero\<close>. The loop of
  \<^verbatim>\<open>parseTime\<close> assigns \<^verbatim>\<open>*t\<close> at every attempt. Before the loop \<^verbatim>\<open>s[len(s)-2]\<close> is read,
  which panics on a string shorter than two bytes.
\<close>

fun parseTime_loop ::
  "(string \<Rightarrow> string \<Rightarrow> Time option) \<Rightarrow> Time \<Rightarrow> string \<Rightarrow> string list \<Rightarrow> Time \<times> error option
   \<Rightarrow> Time \<times> error option" where
  "parseTime_loop timeParse zero s [] r = r"
| "parseTime_loop timeParse zero s (f # fs) r =
     (case timeParse f s of
        Some t \<Rightarrow> (t, None)
      | None \<Rightarrow> parseTime_loop timeParse zero s fs (zero, Some (CouldNotParseTime s)))"

definition parseTime ::
  "(string \<Rightarrow> string \<Rightarrow> Time option) \<Rightarrow> Time \<Rightarrow> string \<Rightarrow> Time \<Rightarrow> (Time \<times> error option) outcome" where
  "parseTime timeParse zero s t =
     (if length s < 2 then Panics IndexOutOfRange
      else let s1 = (if s ! (length s - 2) = CHR ''.'' then s @ ''0'' else s)
           in Returns (parseTime_loop timeParse zero s1 timeFormats (t, None)))"

definition pgTimestamp_Scan ::
  "(string \<Rightarrow> string \<Rightarrow> Time option) \<Rightarrow> Time \<Rightarrow> pgTimestamp \<Rightarrow> 'v src
   \<Rightarrow> (pgTimestamp \<times> error option) outcome" where
  "pgTimestamp_Scan timeParse zero k x =
     (case x of
        SNil \<Rightarrow> Returns (k\<lparr>ts_valid := False\<rparr>, None)
      | STime t \<Rightarrow> Returns (k\<lparr>ts_valid := True, ts_t := t\<rparr>, None)
      | SString s \<Rightarrow>
          (case parseTime timeParse zero s (ts_t k) of
             Panics p \<Rightarrow> Panics p
           | Returns (t, err) \<Rightarrow> Returns (k\<lparr>ts_valid := True, ts_t := t\<rparr>, err))
      | SBytes s \<Rightarrow>
          (case parseTime timeParse zero s (ts_t k) of
             Panics p \<Rightarrow> Panics p
           | Returns (t, err) \<Rightarrow> Returns (k\<lparr>ts_valid := True, ts_t := t\<rparr>, err))
      | _ \<Rightarrow> Returns (k\<lparr>ts_valid := True\<rparr>, Some CannotSetTimestamp))"

definition pgTimestamp_IsNull :: "pgTimestamp \<Rightarrow> bool" where
  "pgTimestamp_IsNull k = (\<not> ts_valid k)"

text \<open>\<open>timeFormat t\<close> is \<^verbatim>\<open>t.Format(time.RFC3339Nano)\<close>.\<close>

definition pgTimestamp_bytes :: "(Time \<Rightarrow> string) \<Rightarrow> pgTimestamp \<Rightarrow> bytes \<times> error option" where
  "pgTimestamp_bytes timeFormat k =
     (if \<not> ts_valid k then (nullBytes, None) else (timeFormat (ts_t k), None))"

definition pgTimestamp_String :: "(Time \<Rightarrow> string) \<Rightarrow> pgTimestamp \<Rightarrow> string" where
  "pgTimestamp_String timeFormat k = (if \<not> ts_valid k then [] else timeFormat (ts_t k))"

definition pgTimestamp_Val :: "pgTimestamp \<Rightarrow> native" where
  "pgTimestamp_Val k = (if \<not> ts_valid k then NNil else NTime (ts_t k))"

section \<open>Composite values: \<^verbatim>\<open>pgArray\<close>, \<^verbatim>\<open>pgRow\<close> and \<^verbatim>\<open>pgRecord\<close>\<close>

text \<open>
  The children of a composite are \<^verbatim>\<open>Value\<close>s, an interface: their methods are dispatched
  on the dynamic type of the child. The model takes the children to be of some type \<open>'v\<close> and
  is given their methods as a record; \<open>vtype\<close> tells the dynamic type of a child, which the
  encoders switch on.
\<close>

datatype dyn_type =
    T_pgBool | T_pgInteger | T_pgFloat | T_pgNumeric | T_pgText | T_pgBytea | T_pgEnum
  | T_pgTimestamp | T_pgArray | T_pgRow | T_pgRecord | T_pgHStore

record 'v Value =
  vScan :: "'v \<Rightarrow> 'v src \<Rightarrow> ('v \<times> error option) outcome"
  vbytes :: "'v \<Rightarrow> bytes \<times> error option"
  vVal :: "'v \<Rightarrow> native"
  vtype :: "'v \<Rightarrow> dyn_type"

text \<open>
  The loop shared by \<^verbatim>\<open>pgArray.bytes\<close> and \<^verbatim>\<open>rowBytes\<close>: each child is written bare when
  its dynamic type is among \<open>bare\<close>, and otherwise between double quotes and escaped in the
  dialect \<open>t\<close>; a comma follows every child but the last.
\<close>

fun children_bytes :: "'v Value \<Rightarrow> dyn_type list \<Rightarrow> int \<Rightarrow> 'v list \<Rightarrow> bytes \<times> error option" where
  "children_bytes I bare t [] = ([], None)"
| "children_bytes I bare t (child # rest) =
     (case vbytes I child of
        (cb, Some err) \<Rightarrow> ([], Some err)
      | (cb, None) \<Rightarrow>
          (let piece = (if List.member bare (vtype I child) then cb
                        else [dquote] @ escape cb t @ [dquote])
                       @ (if rest = [] then [] else '','')
           in case children_bytes I bare t rest of
                (bs, Some err) \<Rightarrow> ([], Some err)
              | (bs, None) \<Rightarrow> (piece @ bs, None)))"

subsection \<open>\<^verbatim>\<open>pgArray\<close>\<close>

text \<open>
  \<^verbatim>\<open>k.el\<close> is the constructor of the elements, a \<^verbatim>\<open>ToValue\<close>: a function from the data to
  a pair of a \<^verbatim>\<open>Value\<close>, possibly nil, and an error, possibly nil.
\<close>

record 'v pgArray =
  array_vs :: "'v list"
  array_el :: "'v src \<Rightarrow> 'v option \<times> error option"
  array_valid :: bool

definition pgArray_Append ::
  "'v Value \<Rightarrow> 'v pgArray \<Rightarrow> 'v src \<Rightarrow> ('v pgArray \<times> error option) outcome" where
  "pgArray_Append I k x =
     (case x of
        SValue v \<Rightarrow> Returns (k\<lparr>array_vs := array_vs k @ [v], array_valid := True\<rparr>, None)
      | _ \<Rightarrow>
          (case array_el k SNil of
             (vo, Some err) \<Rightarrow> Returns (k, Some err)
           | (None, None) \<Rightarrow> Panics NilDereference
           | (Some vx, None) \<Rightarrow>
               (case vScan I vx x of
                  Panics p \<Rightarrow> Panics p
                | Returns (vx1, Some err) \<Rightarrow> Returns (k, Some err)
                | Returns (vx1, None) \<Rightarrow>
                    Returns (k\<lparr>array_vs := array_vs k @ [vx1], array_valid := True\<rparr>, None))))"

fun pgArray_Append_all ::
  "'v Value \<Rightarrow> 'v pgArray \<Rightarrow> 'v src list \<Rightarrow> ('v pgArray \<times> error option) outcome" where
  "pgArray_Append_all I k [] = Returns (k, None)"
| "pgArray_Append_all I k (d # ds) =
     (case pgArray_Append I k d of
        Panics p \<Rightarrow> Panics p
      | Returns (k1, Some err) \<Rightarrow> Returns (k1, Some err)
      | Returns (k1, None) \<Rightarrow> pgArray_Append_all I k1 ds)"

definition pgArray_Scan ::
  "'v Value \<Rightarrow> 'v pgArray \<Rightarrow> 'v src \<Rightarrow> ('v pgArray \<times> error option) outcome" where
  "pgArray_Scan I k x =
     (let k0 = k\<lparr>array_vs := []\<rparr> in
      case x of
        SNil \<Rightarrow> Returns (k0\<lparr>array_valid := False\<rparr>, None)
      | SSlice ds \<Rightarrow> pgArray_Append_all I (k0\<lparr>array_valid := True\<rparr>) ds
      | _ \<Rightarrow>
          (let k1 = k0\<lparr>array_valid := True\<rparr> in
           case srcToBytes x of
             (b, Some err) \<Rightarrow> Returns (k1, Some err)
           | (b, None) \<Rightarrow>
               (case split b of
                  Panics p \<Rightarrow> Panics p
                | Returns (Inl err) \<Rightarrow> Returns (k1, Some err)
                | Returns (Inr parts) \<Rightarrow> pgArray_Append_all I k1 (map SBytes parts))))"

definition pgArray_IsNull :: "'v pgArray \<Rightarrow> bool" where
  "pgArray_IsNull k = (\<not> array_valid k)"

definition pgArray_bytes :: "'v Value \<Rightarrow> 'v pgArray \<Rightarrow> bytes \<times> error option" where
  "pgArray_bytes I k =
     (if \<not> array_valid k then (nullBytes, None)
      else case children_bytes I
                  [T_pgNumeric, T_pgInteger, T_pgFloat, T_pgBool, T_pgArray, T_pgTimestamp] 1
                  (array_vs k) of
             (bs, Some err) \<Rightarrow> ([], Some err)
           | (bs, None) \<Rightarrow> (''{'' @ bs @ ''}'', None))"

definition pgArray_String :: "'v Value \<Rightarrow> 'v pgArray \<Rightarrow> string" where
  "pgArray_String I k = (if \<not> array_valid k then [] else fst (pgArray_bytes I k))"

definition pgArray_Val :: "'v Value \<Rightarrow> 'v pgArray \<Rightarrow> native" where
  "pgArray_Val I k = (if \<not> array_valid k then NNil else NSlice (map (vVal I) (array_vs k)))"

subsection \<open>\<^verbatim>\<open>rowScanner\<close> and \<^verbatim>\<open>rowBytes\<close>\<close>

text \<open>
  In \<^verbatim>\<open>rowScanner\<close> each child scans its input, in order, and the first error
  ends the loop. The children scanned before the error keep what they scanned.
\<close>

fun scan_each :: "'v Value \<Rightarrow> 'v list \<Rightarrow> 'v src list \<Rightarrow> ('v list \<times> error option) outcome" where
  "scan_each I (d # ds) (x # xs) =
     (case vScan I d x of
        Panics p \<Rightarrow> Panics p
      | Returns (d1, Some err) \<Rightarrow> Returns (d1 # ds, Some err)
      | Returns (d1, None) \<Rightarrow>
          (case scan_each I ds xs of
             Panics p \<Rightarrow> Panics p
           | Returns (ds1, err) \<Rightarrow> Returns (d1 # ds1, err)))"
| "scan_each I ds xs = Returns (ds, None)"

definition rowScanner :: "'v Value \<Rightarrow> 'v src \<Rightarrow> 'v list \<Rightarrow> ('v list \<times> error option) outcome" where
  "rowScanner I x dests =
     (case x of
        SNil \<Rightarrow> Panics (ExplicitPanic ShouldNotBePossible)
      | SSlice xs \<Rightarrow>
          if length dests \<noteq> length xs
          then Returns (dests, Some (RowValueCount (length dests) (length xs)))
          else scan_each I dests xs
      | _ \<Rightarrow>
          (case srcToBytes x of
             (b, Some err) \<Rightarrow> Returns (dests, Some err)
           | (b, None) \<Rightarrow>
               (case split b of
                  Panics p \<Rightarrow> Panics p
                | Returns (Inl err) \<Rightarrow> Returns (dests, Some err)
                | Returns (Inr parts) \<Rightarrow>
                    if length parts \<noteq> length dests
                    then Returns (dests, Some (RowColumnCount (length dests) (length parts)))
                    else scan_each I dests (map SBytes parts))))"

definition rowBytes :: "'v Value \<Rightarrow> bool \<Rightarrow> 'v list \<Rightarrow> bytes \<times> error option" where
  "rowBytes I valid vs =
     (if \<not> valid then (nullBytes, None)
      else case children_bytes I [T_pgNumeric, T_pgInteger, T_pgFloat, T_pgBool] 2 vs of
             (bs, Some err) \<Rightarrow> ([], Some err)
           | (bs, None) \<Rightarrow> (''('' @ bs @ '')'', None))"

subsection \<open>\<^verbatim>\<open>pgRow\<close>\<close>

record 'v pgRow =
  row_vs :: "'v list"
  row_valid :: bool

definition pgRow_Scan :: "'v Value \<Rightarrow> 'v pgRow \<Rightarrow> 'v src \<Rightarrow> ('v pgRow \<times> error option) outcome" where
  "pgRow_Scan I k x =
     (case x of
        SNil \<Rightarrow> Returns (k\<lparr>row_valid := False\<rparr>, None)
      | _ \<Rightarrow>
          (case rowScanner I x (row_vs k) of
             Panics p \<Rightarrow> Panics p
           | Returns (vs, err) \<Rightarrow> Returns (k\<lparr>row_valid := True, row_vs := vs\<rparr>, err)))"

definition pgRow_IsNull :: "'v pgRow \<Rightarrow> bool" where
  "pgRow_IsNull k = (\<not> row_valid k)"

definition pgRow_bytes :: "'v Value \<Rightarrow> 'v pgRow \<Rightarrow> bytes \<times> error option" where
  "pgRow_bytes I k = rowBytes I (row_valid k) (row_vs k)"

definition pgRow_String :: "'v Value \<Rightarrow> 'v pgRow \<Rightarrow> string" where
  "pgRow_String I k = (if \<not> row_valid k then [] else fst (pgRow_bytes I k))"

definition pgRow_Val :: "'v Value \<Rightarrow> 'v pgRow \<Rightarrow> native" where
  "pgRow_Val I k = (if \<not> row_valid k then NNil else NSlice (map (vVal I) (row_vs k)))"

subsection \<open>\<^verbatim>\<open>col\<close> and \<^verbatim>\<open>pgRecord\<close>\<close>

record 'v col =
  col_k :: "'v src \<Rightarrow> 'v option \<times> error option"
  col_typ :: string
  col_oid :: "32 word"
  col_name :: string
  col_refT :: string
  col_refF :: string
  col_pk :: bool
  col_notNull :: bool

definition Col :: "string \<Rightarrow> ('v src \<Rightarrow> 'v option \<times> error option) \<Rightarrow> 'v col" where
  "Col name k =
     \<lparr>col_k = k, col_typ = [], col_oid = 0, col_name = name, col_refT = [], col_refF = [],
      col_pk = False, col_notNull = False\<rparr>"

text \<open>
  A record holds its children \<^verbatim>\<open>vs\<close> and its columns \<^verbatim>\<open>cs\<close>; the constructor \<^verbatim>\<open>Record\<close>
  makes \<^verbatim>\<open>vs\<close> as long as \<^verbatim>\<open>cs\<close>. The reference \<^verbatim>\<open>rel\<close> to the relation is not modelled:
  no method below reads it.
\<close>

record 'v pgRecord =
  rec_vs :: "'v list"
  rec_cs :: "'v col list"
  rec_valid :: bool

definition pgRecord_Scan ::
  "'v Value \<Rightarrow> 'v pgRecord \<Rightarrow> 'v src \<Rightarrow> ('v pgRecord \<times> error option) outcome" where
  "pgRecord_Scan I k x =
     (case x of
        SNil \<Rightarrow> Returns (k\<lparr>rec_valid := False\<rparr>, None)
      | _ \<Rightarrow>
          (case rowScanner I x (rec_vs k) of
             Panics p \<Rightarrow> Panics p
           | Returns (vs, err) \<Rightarrow> Returns (k\<lparr>rec_valid := True, rec_vs := vs\<rparr>, err)))"

definition pgRecord_IsNull :: "'v pgRecord \<Rightarrow> bool" where
  "pgRecord_IsNull k = (\<not> rec_valid k)"

definition pgRecord_bytes :: "'v Value \<Rightarrow> 'v pgRecord \<Rightarrow> bytes \<times> error option" where
  "pgRecord_bytes I k = rowBytes I (rec_valid k) (rec_vs k)"

definition pgRecord_String :: "'v Value \<Rightarrow> 'v pgRecord \<Rightarrow> string" where
  "pgRecord_String I k = (if \<not> rec_valid k then [] else fst (pgRecord_bytes I k))"

definition pgRecord_Val :: "'v Value \<Rightarrow> 'v pgRecord \<Rightarrow> native" where
  "pgRecord_Val I k = (if \<not> rec_valid k then NNil else NSlice (map (vVal I) (rec_vs k)))"

text \<open>
  \<^verbatim>\<open>ValueBy\<close>: the loop \<^verbatim>\<open>for i, c := range k.cs\<close>, from index \<open>i\<close> on, over the columns
  \<open>cs\<close> still to visit. It returns \<^verbatim>\<open>k.vs[i]\<close> at the first column with the name, and nil
  (\<open>None\<close>) when no column has it.
\<close>

fun ValueBy_from :: "'v list \<Rightarrow> 'v col list \<Rightarrow> nat \<Rightarrow> string \<Rightarrow> 'v option outcome" where
  "ValueBy_from vs [] i name = Returns None"
| "ValueBy_from vs (c # cs) i name =
     (if col_name c = name
      then (if i < length vs then Returns (Some (vs ! i)) else Panics IndexOutOfRange)
      else ValueBy_from vs cs (i + 1) name)"

definition pgRecord_ValueBy :: "'v pgRecord \<Rightarrow> string \<Rightarrow> 'v option outcome" where
  "pgRecord_ValueBy k name = ValueBy_from (rec_vs k) (rec_cs k) 0 name"

text \<open>
  \<^verbatim>\<open>Get\<close> panics with the message \<open>No column\<close> and the name when \<^verbatim>\<open>ValueBy\<close> returns nil,
  and \<^verbatim>\<open>Set\<close> returns that message as an error instead of scanning.
\<close>

definition pgRecord_Get :: "'v Value \<Rightarrow> 'v pgRecord \<Rightarrow> string \<Rightarrow> native outcome" where
  "pgRecord_Get I k name =
     (case pgRecord_ValueBy k name of
        Panics p \<Rightarrow> Panics p
      | Returns None \<Rightarrow> Panics (ExplicitPanic (NoColumn name))
      | Returns (Some v) \<Rightarrow> Returns (vVal I v))"

text \<open>
  The methods of a child that is a \<^verbatim>\<open>pgText\<close> or a \<^verbatim>\<open>pgInteger\<close>, for records such as
  the one of the test suite, with a text column and an integer column.
\<close>

datatype text_or_int = AText pgText | AnInteger pgInteger

definition text_or_int_Value :: "text_or_int Value" where
  "text_or_int_Value =
     \<lparr>vScan = (\<lambda>v x. case v of
                  AText k \<Rightarrow> (case pgText_Scan k x of (k1, err) \<Rightarrow> Returns (AText k1, err))
                | AnInteger k \<Rightarrow>
                    (case pgInteger_Scan k x of (k1, err) \<Rightarrow> Returns (AnInteger k1, err))),
      vbytes = (\<lambda>v. case v of AText k \<Rightarrow> pgText_bytes k | AnInteger k \<Rightarrow> pgInteger_bytes k),
      vVal = (\<lambda>v. case v of AText k \<Rightarrow> pgText_Val k | AnInteger k \<Rightarrow> pgInteger_Val k),
      vtype = (\<lambda>v. case v of AText k \<Rightarrow> T_pgText | AnInteger k \<Rightarrow> T_pgInteger)\<rparr>"

text \<open>
  The record of the test suite, \<^verbatim>\<open>Record(Col("name", Text), Col("age", BigInt))\<close>, as its
  constructor leaves it before the data is scanned: one NULL child for each column.
\<close>

definition Text_child :: "text_or_int src \<Rightarrow> text_or_int option \<times> error option" where
  "Text_child data = (case Text data of (k, err) \<Rightarrow> (Some (AText k), err))"

definition BigInt_child :: "text_or_int src \<Rightarrow> text_or_int option \<times> error option" where
  "BigInt_child data = (case BigInt data of (k, err) \<Rightarrow> (Some (AnInteger k), err))"

definition record_example :: "text_or_int pgRecord" where
  "record_example =
     \<lparr>rec_vs = [AText \<lparr>text_s = [], text_n = 0, text_p = False, text_valid = False\<rparr>,
                AnInteger \<lparr>int_n = 0, int_bs = 64, int_valid = False\<rparr>],
      rec_cs = [Col ''name'' Text_child, Col ''age'' BigInt_child],
      rec_valid = False\<rparr>"

text \<open>The same record after it has scanned the row literal \<open>(jeff,53)\<close>.\<close>

definition jeff_record :: "text_or_int pgRecord" where
  "jeff_record =
     \<lparr>rec_vs = [AText \<lparr>text_s = ''jeff'', text_n = 0, text_p = False, text_valid = True\<rparr>,
                AnInteger \<lparr>int_n = 53, int_bs = 64, int_valid = True\<rparr>],
      rec_cs = [Col ''name'' Text_child, Col ''age'' BigInt_child],
      rec_valid = True\<rparr>"

text \<open>
  The state of \<^verbatim>\<open>split\<close> between two elements, and the closing delimiter that goes with a
  dialect of \<^verbatim>\<open>escape\<close>.
\<close>

definition outside_element :: "split_vars \<Rightarrow> bool" where
  "outside_element v = (sv_a v = - 1 \<and> sv_z v = - 1 \<and> \<not> sv_ignore v)"

definition dialect_mode :: "int \<Rightarrow> char" where
  "dialect_mode t = (if t = 1 then CHR ''}'' else CHR '')'')"

section \<open>Properties of the integer decode\<close>

lemmas int_scan_defs =
  SmallInt_def Integer_def BigInt_def newInt_def pgInteger_Scan_def is_native_int_def
  fitInt_def MaxInt8_def MaxInt16_def MaxInt32_def MaxInt64_def

lemmas parse_int_defs = ParseInt_def ParseUint_def is_digit_def digit_val_def

text \<open>
  What the range check of \<^verbatim>\<open>fitInt\<close> decides for a native \<^verbatim>\<open>int64\<close>: only an upper
  bound is compared, and it is compared strictly.
\<close>

lemma SmallInt_int64_ok_iff:
  "snd (SmallInt (SInt64 v)) = None \<longleftrightarrow> sint v < 32767"
  by (simp add: int_scan_defs)

lemma Integer_int64_ok_iff:
  "snd (Integer (SInt64 v)) = None \<longleftrightarrow> sint v < 2147483647"
  by (simp add: int_scan_defs)

lemma BigInt_int64_ok:
  "BigInt (SInt64 v) = (\<lparr>int_n = v, int_bs = 64, int_valid = True\<rparr>, None)"
  by (simp add: int_scan_defs)

text \<open>
  C2. The claim has a native integer accepted by a 16-bit or 32-bit value exactly when it is
  below the signed maximum and not below the signed minimum. On the code the native
  \<^verbatim>\<open>int\<close> \<open>-40000\<close>, which is below \<open>-32768\<close>, is accepted by \<^verbatim>\<open>SmallInt\<close> and stored:
  \<^verbatim>\<open>fitInt\<close> has no lower bound.
\<close>

theorem C2_SmallInt_accepts_below_minimum:
  "SmallInt (SInt (- 40000)) = (\<lparr>int_n = - 40000, int_bs = 16, int_valid = True\<rparr>, None)
   \<and> sint (- 40000 :: 64 word) < - (2 ^ 15)"
  by (simp add: int_scan_defs)

text \<open>
  C3. Decoding \<open>40000\<close> into a 16-bit integer fails on both paths (natively with the error
  that names the width 16, from a string with the range error of \<^verbatim>\<open>strconv\<close>), and the
  string \<open>32767\<close> is accepted; but the native \<^verbatim>\<open>int\<close> \<open>32767\<close> is refused, where the claim
  has it accepted whichever way the input arrives.
\<close>

theorem C3_SmallInt_rejects_native_maximum:
  "SmallInt (SInt 32767) = (\<lparr>int_n = 0, int_bs = 16, int_valid = True\<rparr>,
                            Some (CannotFitInt 32767 16))
   \<and> SmallInt (SString ''32767'') = (\<lparr>int_n = 32767, int_bs = 16, int_valid = True\<rparr>, None)
   \<and> SmallInt (SInt 40000) = (\<lparr>int_n = 0, int_bs = 16, int_valid = True\<rparr>,
                              Some (CannotFitInt 40000 16))
   \<and> SmallInt (SString ''40000'') = (\<lparr>int_n = 32767, int_bs = 16, int_valid = True\<rparr>,
                                     Some (NumError ''ParseInt'' ''40000'' ErrRange))"
  by (simp add: int_scan_defs parse_int_defs)

section \<open>Properties of the boolean decode\<close>

lemma pgBool_Scan_nonempty_string:
  "s \<noteq> [] \<Longrightarrow>
   pgBool_Scan k (SString s) =
     Returns (\<lparr>bool_b = (hd s = CHR ''t'' \<or> hd s = CHR ''1''), bool_valid = True\<rparr>, None)"
  by (cases s) (auto simp: pgBool_Scan_def leading_true_def Let_def)

lemma pgBool_Scan_nonempty_bytes:
  "s \<noteq> [] \<Longrightarrow>
   pgBool_Scan k (SBytes s) =
     Returns (\<lparr>bool_b = (hd s = CHR ''t'' \<or> hd s = CHR ''1''), bool_valid = True\<rparr>, None)"
  by (cases s) (auto simp: pgBool_Scan_def leading_true_def Let_def)

lemma pgBool_Scan_bool:
  "pgBool_Scan k (SBool v) = Returns (\<lparr>bool_b = v, bool_valid = True\<rparr>, None)"
  by (simp add: pgBool_Scan_def)

text \<open>
  C6. The claim has every string input decoded to true or false, false for every input whose
  leading byte is neither \<open>t\<close> nor \<open>1\<close>. The empty string has no leading byte; on it the
  decode does not yield false, it panics on \<^verbatim>\<open>x[0]\<close>.
\<close>

theorem C6_Bool_empty_string_panics:
  "Bool (SString []) = Panics IndexOutOfRange"
  by (simp add: Bool_def pgBool_Scan_def)

text \<open>
  C10. The claim has the decode return a result for every byte sequence, the empty one
  included, without reading out of bounds. On the empty byte sequence \<^verbatim>\<open>x[0]\<close> is out of
  range and the call panics.
\<close>

theorem C10_Bool_empty_bytes_panics:
  "pgBool_Scan \<lparr>bool_b = False, bool_valid = False\<rparr> (SBytes []) = Panics IndexOutOfRange"
  by (simp add: pgBool_Scan_def)


section \<open>The tokenizer inverts the escaping\<close>

lemma Replace_single:
  "bytes_Replace s [a] new = concat (map (\<lambda>c. if c = a then new else [c]) s)"
  by (induction s) simp_all

lemma escape_1: "escape s 1 = concat (map esc1 s)"
  unfolding escape_def Replace_single
  by (induction s) (simp_all add: esc1_def)

lemma escape_2: "escape s 2 = concat (map esc2 s)"
  unfolding escape_def Replace_single
  by (induction s) (simp_all add: esc2_def)

lemma unescape_bs_1:
  "bytes_Replace (concat (map esc1 s)) [bslash, bslash] [bslash]
   = concat (map (\<lambda>c. if c = dquote then [bslash, dquote] else [c]) s)"
  by (induction s) (simp_all add: esc1_def)

lemma unescape_bs_2:
  "bytes_Replace (concat (map esc2 s)) [bslash, bslash] [bslash]
   = concat (map (\<lambda>c. if c = dquote then [dquote, dquote] else [c]) s)"
  by (induction s) (simp_all add: esc2_def)

lemma no_leading_quote:
  "take (Suc 0) (concat (map (\<lambda>c. if c = dquote then [bslash, dquote] else [c]) s)) \<noteq> [dquote]"
  by (cases s) auto

lemma unescape_q_1:
  "bytes_Replace (concat (map (\<lambda>c. if c = dquote then [bslash, dquote] else [c]) s))
     [bslash, dquote] [dquote] = s"
proof (induction s)
  case Nil
  then show ?case by simp
next
  case (Cons c s)
  have "take (Suc 0) (concat (map (\<lambda>c. if c = dquote then [bslash, dquote] else [c]) s)) \<noteq> [dquote]"
    by (rule no_leading_quote)
  with Cons show ?case by (auto simp: take_Suc_conv_app_nth)
qed

lemma unescape_q_2:
  "bytes_Replace (concat (map (\<lambda>c. if c = dquote then [dquote, dquote] else [c]) s))
     [dquote, dquote] [dquote] = s"
  by (induction s) simp_all


lemma split_from_step:
  "i < length L \<Longrightarrow> split_switch L i v = Inr v1 \<Longrightarrow> split_collect L v1 = Returns v2 \<Longrightarrow>
   split_from L i v = split_from L (Suc i) v2"
  by (subst split_from.simps) simp

lemma split_from_end: "length L \<le> i \<Longrightarrow> split_from L i v = Returns (Inr (sv_parts v))"
  by (subst split_from.simps) simp

lemma ignore_reset: "\<not> sv_ignore v \<Longrightarrow> v\<lparr>sv_ignore := False\<rparr> = v"
  by (cases v) simp

lemma step_inside:
  assumes "0 < i" "Suc i < length L" "sv_a v \<noteq> - 1" "sv_z (split_inside L i v) = - 1"
  shows "split_from L i v = split_from L (Suc i) (split_inside L i v)"
proof -
  have "i \<noteq> length L - 1" using assms(2) by arith
  then have "split_switch L i v = Inr (split_inside L i v)"
    using assms(1,3) by (simp add: split_switch_def Let_def)
  moreover have "split_collect L (split_inside L i v) = Returns (split_inside L i v)"
    using assms by (simp add: split_collect_def)
  ultimately show ?thesis using assms by (intro split_from_step) simp_all
qed

lemma array_plain:
  assumes "in_quoted (CHR ''}'') v" "L ! i \<noteq> bslash" "L ! i \<noteq> dquote"
  shows "split_inside L i v = v"
  using assms by (simp add: split_inside_def in_quoted_def Let_def)

lemma array_escaped:
  assumes "in_quoted (CHR ''}'') v" "L ! i = bslash"
  shows "split_inside L (Suc i) (split_inside L i v) = v"
  using assms by (simp add: split_inside_def in_quoted_def Let_def ignore_reset)

lemma row_plain:
  assumes "in_quoted (CHR '')'') v" "L ! i \<noteq> dquote"
  shows "split_inside L i v = v"
  using assms by (simp add: split_inside_def in_quoted_def Let_def)

lemma row_escaped:
  assumes "in_quoted (CHR '')'') v" "L ! i = dquote" "L ! Suc i = dquote"
  shows "split_inside L (Suc i) (split_inside L i v) = v"
  using assms by (simp add: split_inside_def in_quoted_def Let_def ignore_reset)

lemma scan_array:
  assumes "in_quoted (CHR ''}'') v" "pre \<noteq> []" "post \<noteq> []"
  shows "split_from (pre @ concat (map esc1 s) @ post) (length pre) v
       = split_from (pre @ concat (map esc1 s) @ post) (length pre + length (concat (map esc1 s))) v"
  using assms(2)
proof (induction s arbitrary: pre)
  case Nil
  then show ?case by simp
next
  case (Cons c s)
  let ?E = "concat (map esc1 s)"
  let ?L = "pre @ concat (map esc1 (c # s)) @ post"
  have v: "sv_a v \<noteq> - 1" "sv_z v = - 1" using assms(1) by (simp_all add: in_quoted_def)
  have pos: "0 < length pre" using Cons.prems by simp
  show ?case
  proof (cases "c = bslash \<or> c = dquote")
    case True
    then have e: "esc1 c = [bslash, c]" by (auto simp: esc1_def)
    have L: "?L = pre @ bslash # c # ?E @ post" by (simp add: e)
    have n0: "?L ! length pre = bslash" unfolding L by (simp add: nth_append)
    have i1: "split_inside ?L (Suc (length pre)) (split_inside ?L (length pre) v) = v"
      using assms(1) n0 by (rule array_escaped)
    have z1: "sv_z (split_inside ?L (length pre) v) = - 1"
      using assms(1) n0 by (simp add: split_inside_def in_quoted_def Let_def)
    have a1: "sv_a (split_inside ?L (length pre) v) \<noteq> - 1"
      using assms(1) n0 by (simp add: split_inside_def in_quoted_def Let_def)
    have len: "Suc (Suc (length pre)) < length ?L" using assms(3) unfolding L by (cases post) simp_all
    have s1: "split_from ?L (length pre) v
            = split_from ?L (Suc (length pre)) (split_inside ?L (length pre) v)"
      using pos len v z1 by (intro step_inside) simp_all
    have s2: "split_from ?L (Suc (length pre)) (split_inside ?L (length pre) v)
            = split_from ?L (Suc (Suc (length pre))) v"
      using step_inside [of "Suc (length pre)" ?L "split_inside ?L (length pre) v"] len a1 i1 v
      by simp
    have "split_from ((pre @ esc1 c) @ ?E @ post) (length (pre @ esc1 c)) v
        = split_from ((pre @ esc1 c) @ ?E @ post) (length (pre @ esc1 c) + length ?E) v"
      using Cons.prems by (intro Cons.IH) simp
    then show ?thesis using s1 s2 by (simp add: e)
  next
    case False
    then have e: "esc1 c = [c]" by (auto simp: esc1_def)
    have L: "?L = pre @ c # ?E @ post" by (simp add: e)
    have n0: "?L ! length pre = c" unfolding L by (simp add: nth_append)
    have i1: "split_inside ?L (length pre) v = v"
      using assms(1) False n0 by (intro array_plain) simp_all
    have len: "Suc (length pre) < length ?L" using assms(3) unfolding L by (cases post) simp_all
    have s1: "split_from ?L (length pre) v = split_from ?L (Suc (length pre)) v"
      using step_inside [of "length pre" ?L v] pos len v i1 by simp
    have "split_from ((pre @ esc1 c) @ ?E @ post) (length (pre @ esc1 c)) v
        = split_from ((pre @ esc1 c) @ ?E @ post) (length (pre @ esc1 c) + length ?E) v"
      using Cons.prems by (intro Cons.IH) simp
    then show ?thesis using s1 by (simp add: e)
  qed
qed


lemma scan_row:
  assumes "in_quoted (CHR '')'') v" "pre \<noteq> []" "post \<noteq> []"
  shows "split_from (pre @ concat (map esc2 s) @ post) (length pre) v
       = split_from (pre @ concat (map esc2 s) @ post) (length pre + length (concat (map esc2 s))) v"
  using assms(2)
proof (induction s arbitrary: pre)
  case Nil
  then show ?case by simp
next
  case (Cons c s)
  let ?E = "concat (map esc2 s)"
  let ?L = "pre @ concat (map esc2 (c # s)) @ post"
  have v: "sv_a v \<noteq> - 1" "sv_z v = - 1" using assms(1) by (simp_all add: in_quoted_def)
  have pos: "0 < length pre" using Cons.prems by simp
  have IH: "split_from ((pre @ esc2 c) @ ?E @ post) (length (pre @ esc2 c)) v
        = split_from ((pre @ esc2 c) @ ?E @ post) (length (pre @ esc2 c) + length ?E) v"
    using Cons.prems by (intro Cons.IH) simp
  consider (quote) "c = dquote" | (bs) "c = bslash" | (plain) "c \<noteq> dquote" "c \<noteq> bslash"
    by blast
  then show ?case
  proof cases
    case quote
    then have e: "esc2 c = [dquote, dquote]" by (simp add: esc2_def)
    have L: "?L = pre @ dquote # dquote # ?E @ post" by (simp add: e)
    have n0: "?L ! length pre = dquote" unfolding L by (simp add: nth_append)
    have n1: "?L ! Suc (length pre) = dquote" unfolding L by (simp add: nth_append)
    have i1: "split_inside ?L (Suc (length pre)) (split_inside ?L (length pre) v) = v"
      using assms(1) n0 n1 by (rule row_escaped)
    have z1: "sv_z (split_inside ?L (length pre) v) = - 1"
      using assms(1) n0 n1 by (simp add: split_inside_def in_quoted_def Let_def)
    have a1: "sv_a (split_inside ?L (length pre) v) \<noteq> - 1"
      using assms(1) n0 n1 by (simp add: split_inside_def in_quoted_def Let_def)
    have len: "Suc (Suc (length pre)) < length ?L" using assms(3) unfolding L by (cases post) simp_all
    have s1: "split_from ?L (length pre) v
            = split_from ?L (Suc (length pre)) (split_inside ?L (length pre) v)"
      using pos len v z1 by (intro step_inside) simp_all
    have s2: "split_from ?L (Suc (length pre)) (split_inside ?L (length pre) v)
            = split_from ?L (Suc (Suc (length pre))) v"
      using step_inside [of "Suc (length pre)" ?L "split_inside ?L (length pre) v"] len a1 i1 v
      by simp
    show ?thesis using IH s1 s2 by (simp add: e)
  next
    case bs
    then have e: "esc2 c = [bslash, bslash]" by (simp add: esc2_def)
    have L: "?L = pre @ bslash # bslash # ?E @ post" by (simp add: e)
    have n0: "?L ! length pre = bslash" unfolding L by (simp add: nth_append)
    have n1: "?L ! Suc (length pre) = bslash" unfolding L by (simp add: nth_append)
    have i0: "split_inside ?L (length pre) v = v"
      using assms(1) n0 by (intro row_plain) simp_all
    have i1: "split_inside ?L (Suc (length pre)) v = v"
      using assms(1) n1 by (intro row_plain) simp_all
    have len: "Suc (Suc (length pre)) < length ?L" using assms(3) unfolding L by (cases post) simp_all
    have s1: "split_from ?L (length pre) v = split_from ?L (Suc (length pre)) v"
      using step_inside [of "length pre" ?L v] pos len v i0 by simp
    have s2: "split_from ?L (Suc (length pre)) v = split_from ?L (Suc (Suc (length pre))) v"
      using step_inside [of "Suc (length pre)" ?L v] len v i1 by simp
    show ?thesis using IH s1 s2 by (simp add: e)
  next
    case plain
    then have e: "esc2 c = [c]" by (simp add: esc2_def)
    have L: "?L = pre @ c # ?E @ post" by (simp add: e)
    have n0: "?L ! length pre = c" unfolding L by (simp add: nth_append)
    have i0: "split_inside ?L (length pre) v = v"
      using assms(1) n0 plain by (intro row_plain) simp_all
    have len: "Suc (length pre) < length ?L" using assms(3) unfolding L by (cases post) simp_all
    have s1: "split_from ?L (length pre) v = split_from ?L (Suc (length pre)) v"
      using step_inside [of "length pre" ?L v] pos len v i0 by simp
    show ?thesis using IH s1 by (simp add: e)
  qed
qed

lemma unescape_array: "split_unescape (CHR ''}'') (concat (map esc1 s)) = quoted_element s"
  by (simp add: split_unescape_def unescape_bs_1 unescape_q_1 quoted_element_def hex_prefixed_def)

lemma unescape_row: "split_unescape (CHR '')'') (concat (map esc2 s)) = quoted_element s"
  by (simp add: split_unescape_def unescape_bs_2 unescape_q_2 quoted_element_def hex_prefixed_def)

text \<open>
  One quoted element, met between two elements at the end of \<open>P\<close>: a quote, the escaped bytes
  \<open>E\<close>, a quote, and then at least one more byte that is no quote. \<open>scan\<close> is what the loop does
  on \<open>E\<close>.
\<close>

lemma split_quoted_element:
  assumes m: "m = CHR ''}'' \<or> m = CHR '')''"
    and P: "P \<noteq> []" and S: "S \<noteq> []" "hd S \<noteq> dquote"
    and v: "outside_element v" "sv_mode v = m"
    and scan: "\<And>w. in_quoted m w \<Longrightarrow>
                 split_from ((P @ [dquote]) @ E @ ([dquote] @ S)) (length (P @ [dquote])) w
               = split_from ((P @ [dquote]) @ E @ ([dquote] @ S))
                   (length (P @ [dquote]) + length E) w"
  shows "split_from (P @ [dquote] @ E @ [dquote] @ S) (length P) v
       = split_from (P @ [dquote] @ E @ [dquote] @ S) (length P + length E + 2)
           (v\<lparr>sv_parts := sv_parts v @ [split_unescape m E], sv_closer := dquote, sv_dep := 0\<rparr>)"
proof -
  let ?L = "P @ [dquote] @ E @ [dquote] @ S"
  let ?p = "length P"
  let ?v2 = "v\<lparr>sv_a := int ?p + 1, sv_closer := dquote\<rparr>"
  let ?v3 = "v\<lparr>sv_parts := sv_parts v @ [split_unescape m E], sv_closer := dquote, sv_dep := 0\<rparr>"
  obtain c S' where Seq: "S = c # S'" and c: "c \<noteq> dquote" using S by (cases S) auto
  have va: "sv_a v = - 1" "sv_z v = - 1" "\<not> sv_ignore v"
    using v(1) by (simp_all add: outside_element_def)
  have ppos: "0 < ?p" using P by simp
  have n0: "?L ! ?p = dquote" by (simp add: nth_append)
  have s1: "split_from ?L ?p v = split_from ?L (Suc ?p) ?v2"
  proof (rule split_from_step)
    show "split_switch ?L ?p v = Inr ?v2"
      using ppos va n0 by (simp add: split_switch_def Let_def)
    show "split_collect ?L ?v2 = Returns ?v2" using va by (simp add: split_collect_def)
  qed simp
  have q: "in_quoted m ?v2" using va v(2) by (simp add: in_quoted_def)
  have s2: "split_from ?L (Suc ?p) ?v2 = split_from ?L (Suc ?p + length E) ?v2"
    using scan [OF q] by simp
  let ?i = "Suc ?p + length E"
  have nq: "?L ! ?i = dquote"
    using nth_append_length [of "P @ [dquote] @ E" dquote S] by simp
  have nn: "?L ! Suc ?i = c"
    using nth_append_length [of "P @ [dquote] @ E @ [dquote]" c S'] by (simp add: Seq)
  have ilast: "?i \<noteq> length ?L - 1" by (simp add: Seq)
  have nn': "(P @ dquote # E @ dquote # S) ! Suc (Suc (length P + length E)) \<noteq> dquote"
    using nn c by simp
  have ins: "split_inside ?L ?i ?v2 = ?v2\<lparr>sv_z := int ?i - 1\<rparr>"
    unfolding split_inside_def Let_def nq using nn' va m v(2) by auto
  have sub: "subslice ?L (int ?p + 1) (int ?i - 1 + 1) = E"
    by (simp add: subslice_def nat_add_distrib)
  have v3: "?v2\<lparr>sv_parts := sv_parts ?v2 @ [split_unescape (sv_mode ?v2) E],
                 sv_a := - 1, sv_z := - 1, sv_dep := 0\<rparr> = ?v3"
    using va v(2) by (cases v) simp
  have s3: "split_from ?L ?i ?v2 = split_from ?L (Suc ?i) ?v3"
  proof (rule split_from_step)
    show "split_switch ?L ?i ?v2 = Inr (?v2\<lparr>sv_z := int ?i - 1\<rparr>)"
      unfolding split_switch_def Let_def using ins ilast by simp
    show "split_collect ?L (?v2\<lparr>sv_z := int ?i - 1\<rparr>) = Returns ?v3"
      using sub v3 by (simp add: split_collect_def slice_ok_def)
  qed simp
  show ?thesis using s1 s2 s3 by simp
qed


text \<open>The whole literal with that one element, between \<open>op\<close> and \<open>cl\<close>.\<close>

lemma split_one_quoted:
  assumes mode: "(op = CHR ''{'' \<and> cl = CHR ''}'') \<or> (op = CHR ''('' \<and> cl = CHR '')'')"
    and scan: "\<And>w. in_quoted cl w \<Longrightarrow>
                 split_from (([op] @ [dquote]) @ E @ ([dquote] @ [cl])) (length ([op] @ [dquote])) w
               = split_from (([op] @ [dquote]) @ E @ ([dquote] @ [cl]))
                   (length ([op] @ [dquote]) + length E) w"
  shows "split ([op] @ [dquote] @ E @ [dquote] @ [cl]) = Returns (Inr [split_unescape cl E])"
proof -
  let ?L = "[op] @ [dquote] @ E @ [dquote] @ [cl]"
  let ?v0 = "\<lparr>sv_parts = [], sv_ignore = False, sv_dep = 0, sv_mode = CHR 0x00,
              sv_closer = CHR 0x00, sv_a = - 1, sv_z = - 1\<rparr>"
  let ?v1 = "?v0\<lparr>sv_mode := cl\<rparr>"
  let ?v3 = "?v1\<lparr>sv_parts := sv_parts ?v1 @ [split_unescape cl E], sv_closer := dquote,
                 sv_dep := 0\<rparr>"
  let ?v4 = "?v3\<lparr>sv_a := int (length E) + 3, sv_closer := CHR '',''\<rparr>"
  have cl: "cl \<noteq> dquote" "cl \<noteq> CHR '' ''" "cl \<noteq> CHR '',''" "cl \<noteq> CHR ''{''"
    using mode by auto
  have s0: "split_from ?L 0 ?v0 = split_from ?L (Suc 0) ?v1"
  proof (rule split_from_step)
    show "split_switch ?L 0 ?v0 = Inr ?v1" using mode by (auto simp: split_switch_def)
    show "split_collect ?L ?v1 = Returns ?v1" by (simp add: split_collect_def)
  qed simp
  have s1: "split_from ?L (length [op]) ?v1 = split_from ?L (length [op] + length E + 2) ?v3"
  proof (rule split_quoted_element)
    show "cl = CHR ''}'' \<or> cl = CHR '')''" using mode by auto
    show "[op] \<noteq> []" by simp
    show "[cl] \<noteq> []" by simp
    show "hd [cl] \<noteq> dquote" using cl by simp
    show "outside_element ?v1" by (simp add: outside_element_def)
    show "sv_mode ?v1 = cl" by simp
    show "split_from (([op] @ [dquote]) @ E @ ([dquote] @ [cl])) (length ([op] @ [dquote])) w
        = split_from (([op] @ [dquote]) @ E @ ([dquote] @ [cl]))
            (length ([op] @ [dquote]) + length E) w" if "in_quoted cl w" for w
      using that by (rule scan)
  qed
  have nc: "?L ! Suc (Suc (Suc (length E))) = cl"
    using nth_append_length [of "[op] @ [dquote] @ E @ [dquote]" cl "[]"] by simp
  have s4: "split_from ?L (Suc (Suc (Suc (length E)))) ?v3
          = split_from ?L (Suc (Suc (Suc (Suc (length E))))) ?v4"
  proof (rule split_from_step)
    show "split_switch ?L (Suc (Suc (Suc (length E)))) ?v3 = Inr ?v4"
      unfolding split_switch_def Let_def nc using cl by simp
    show "split_collect ?L ?v4 = Returns ?v4" by (simp add: split_collect_def)
  qed simp
  have s5: "split_from ?L (Suc (Suc (Suc (Suc (length E))))) ?v4
          = Returns (Inr [split_unescape cl E])"
    by (subst split_from_end) simp_all
  show ?thesis
    unfolding split_def using s0 s1 s4 s5 by (simp add: numeral_eq_Suc)
qed

text \<open>
  C1, as amended. \<^verbatim>\<open>escape(s, 0)\<close> is \<open>s\<close>. Tokenizing the array literal that holds
  \<^verbatim>\<open>escape(s, 1)\<close> as its one double-quoted element, or the row literal that holds
  \<^verbatim>\<open>escape(s, 2)\<close>, yields one element: the bytes \<open>s\<close> themselves, unless \<open>s\<close> starts with
  the two bytes \<open>\\x\<close>, when the element is the rest of \<open>s\<close> decoded from hexadecimal. The same
  holds of the quoted element wherever it stands in a literal: when the loop of the tokenizer
  is between two elements at the end of \<open>P\<close> and meets the quoted \<^verbatim>\<open>escape(s, t)\<close> in the
  dialect of its literal, followed by a byte that is no double quote, it appends that element
  and is between two elements again after the closing quote.
\<close>

theorem C1_escape_split:
  "escape s 0 = s
   \<and> split (''{'' @ [dquote] @ escape s 1 @ [dquote] @ ''}'') = Returns (Inr [quoted_element s])
   \<and> split (''('' @ [dquote] @ escape s 2 @ [dquote] @ '')'') = Returns (Inr [quoted_element s])
   \<and> (\<forall>t P S v.
         (t = 1 \<or> t = 2) \<and> P \<noteq> [] \<and> S \<noteq> [] \<and> hd S \<noteq> dquote
         \<and> outside_element v \<and> sv_mode v = dialect_mode t \<longrightarrow>
         split_from (P @ [dquote] @ escape s t @ [dquote] @ S) (length P) v
         = split_from (P @ [dquote] @ escape s t @ [dquote] @ S)
             (length P + length (escape s t) + 2)
             (v\<lparr>sv_parts := sv_parts v @ [quoted_element s], sv_closer := dquote,
                sv_dep := 0\<rparr>))"
proof (intro conjI allI impI)
  show "escape s 0 = s" by (simp add: escape_def)
  have "split ([CHR ''{''] @ [dquote] @ concat (map esc1 s) @ [dquote] @ [CHR ''}''])
      = Returns (Inr [split_unescape (CHR ''}'') (concat (map esc1 s))])"
    by (rule split_one_quoted) (simp, rule scan_array, simp_all)
  then show "split (''{'' @ [dquote] @ escape s 1 @ [dquote] @ ''}'') = Returns (Inr [quoted_element s])"
    by (simp add: escape_1 unescape_array)
  have "split ([CHR ''(''] @ [dquote] @ concat (map esc2 s) @ [dquote] @ [CHR '')''])
      = Returns (Inr [split_unescape (CHR '')'') (concat (map esc2 s))])"
    by (rule split_one_quoted) (simp, rule scan_row, simp_all)
  then show "split (''('' @ [dquote] @ escape s 2 @ [dquote] @ '')'') = Returns (Inr [quoted_element s])"
    by (simp add: escape_2 unescape_row)
next
  fix t :: int and P S :: bytes and v :: split_vars
  assume h: "(t = 1 \<or> t = 2) \<and> P \<noteq> [] \<and> S \<noteq> [] \<and> hd S \<noteq> dquote
             \<and> outside_element v \<and> sv_mode v = dialect_mode t"
  show "split_from (P @ [dquote] @ escape s t @ [dquote] @ S) (length P) v
         = split_from (P @ [dquote] @ escape s t @ [dquote] @ S)
             (length P + length (escape s t) + 2)
             (v\<lparr>sv_parts := sv_parts v @ [quoted_element s], sv_closer := dquote,
                sv_dep := 0\<rparr>)"
  proof (cases "t = 1")
    case True
    have "split_from (P @ [dquote] @ concat (map esc1 s) @ [dquote] @ S) (length P) v
        = split_from (P @ [dquote] @ concat (map esc1 s) @ [dquote] @ S)
            (length P + length (concat (map esc1 s)) + 2)
            (v\<lparr>sv_parts := sv_parts v @ [split_unescape (CHR ''}'') (concat (map esc1 s))],
               sv_closer := dquote, sv_dep := 0\<rparr>)"
      using h True
      by (intro split_quoted_element scan_array) (simp_all add: dialect_mode_def)
    then show ?thesis using True by (simp add: escape_1 unescape_array)
  next
    case False
    then have t2: "t = 2" using h by simp
    have "split_from (P @ [dquote] @ concat (map esc2 s) @ [dquote] @ S) (length P) v
        = split_from (P @ [dquote] @ concat (map esc2 s) @ [dquote] @ S)
            (length P + length (concat (map esc2 s)) + 2)
            (v\<lparr>sv_parts := sv_parts v @ [split_unescape (CHR '')'') (concat (map esc2 s))],
               sv_closer := dquote, sv_dep := 0\<rparr>)"
      using h t2
      by (intro split_quoted_element scan_row) (simp_all add: dialect_mode_def)
    then show ?thesis using t2 by (simp add: escape_2 unescape_row)
  qed
qed

text \<open>
  The theorem at bytes that hold a backslash, a quote, a comma and a closing brace, alone in
  a literal and as the second of three elements of an array literal.
\<close>

theorem C1_escape_split_witness:
  "split (''{'' @ [dquote] @ escape (''a'' @ [bslash, dquote] @ ''b,}'') 1 @ [dquote] @ ''}'')
     = Returns (Inr [''a'' @ [bslash, dquote] @ ''b,}''])
   \<and> split (''('' @ [dquote] @ escape (''a'' @ [bslash, dquote] @ ''b,}'') 2 @ [dquote] @ '')'')
     = Returns (Inr [''a'' @ [bslash, dquote] @ ''b,}''])
   \<and> split (''{1,'' @ [dquote] @ escape (''a'' @ [bslash, dquote] @ ''b,}'') 1 @ [dquote] @ '',2}'')
     = Returns (Inr [''1'', ''a'' @ [bslash, dquote] @ ''b,}'', ''2''])"
proof -
  let ?s = "''a'' @ [bslash, dquote] @ ''b,}''"
  let ?v = "\<lparr>sv_parts = [''1''], sv_ignore = False, sv_dep = 0, sv_mode = CHR ''}'',
             sv_closer = CHR '','', sv_a = - 1, sv_z = - 1\<rparr>"
  note th = C1_escape_split [of ?s]
  have one: "split (''{'' @ [dquote] @ escape ?s 1 @ [dquote] @ ''}'') = Returns (Inr [?s])"
       "split (''('' @ [dquote] @ escape ?s 2 @ [dquote] @ '')'') = Returns (Inr [?s])"
    using th by (simp_all add: quoted_element_def hex_prefixed_def)
  have step: "split_from (''{1,'' @ [dquote] @ escape ?s 1 @ [dquote] @ '',2}'') (length ''{1,'') ?v
      = split_from (''{1,'' @ [dquote] @ escape ?s 1 @ [dquote] @ '',2}'')
          (length ''{1,'' + length (escape ?s 1) + 2)
          (?v\<lparr>sv_parts := sv_parts ?v @ [quoted_element ?s], sv_closer := dquote, sv_dep := 0\<rparr>)"
    using th [THEN conjunct2, THEN conjunct2, THEN conjunct2, THEN spec, THEN spec, THEN spec,
              THEN spec, of 1 "''{1,''" "'',2}''" ?v]
    by (simp add: outside_element_def dialect_mode_def)
  have e: "escape ?s 1 = ''a'' @ [bslash, bslash, bslash, dquote] @ ''b,}''"
    by (simp add: escape_def)
  have before: "split (''{1,'' @ [dquote] @ escape ?s 1 @ [dquote] @ '',2}'')
      = split_from (''{1,'' @ [dquote] @ escape ?s 1 @ [dquote] @ '',2}'') (length ''{1,'') ?v"
    unfolding e split_def
    by (simp add: split_from.simps split_switch_def split_inside_def split_collect_def
        split_unescape_def slice_ok_def subslice_def Let_def
        cong: outcome.case_cong_weak sum.case_cong_weak)
  have after: "split_from (''{1,'' @ [dquote] @ escape ?s 1 @ [dquote] @ '',2}'')
          (length ''{1,'' + length (escape ?s 1) + 2)
          (?v\<lparr>sv_parts := sv_parts ?v @ [quoted_element ?s], sv_closer := dquote, sv_dep := 0\<rparr>)
      = Returns (Inr [''1'', ?s, ''2''])"
    unfolding e
    by (simp add: split_from.simps split_switch_def split_inside_def split_collect_def
        split_unescape_def slice_ok_def subslice_def Let_def quoted_element_def hex_prefixed_def
        cong: outcome.case_cong_weak sum.case_cong_weak)
  show ?thesis using one before step after by simp
qed

text \<open>
  C1 as stated fails on the bytes \<open>\\x\<close>: escaped, quoted and tokenized in either dialect
  they come back as the empty element.
\<close>

theorem C1_counterexample:
  "split (''{'' @ [dquote] @ escape [bslash, CHR ''x''] 1 @ [dquote] @ ''}'') = Returns (Inr [[]])
   \<and> split (''('' @ [dquote] @ escape [bslash, CHR ''x''] 2 @ [dquote] @ '')'') = Returns (Inr [[]])
   \<and> [bslash, CHR ''x''] \<noteq> []"
  by (simp add: split_def split_from.simps split_switch_def split_inside_def split_collect_def
      split_unescape_def slice_ok_def subslice_def Let_def escape_def
      cong: outcome.case_cong_weak sum.case_cong_weak)

section \<open>Properties of the text decode\<close>

lemma TrimRight_space_rev:
  "TrimRight_space s = rev (dropWhile (\<lambda>c. c = CHR '' '') (rev s))"
proof (induction s)
  case Nil
  then show ?case by simp
next
  case (Cons c cs)
  show ?case
  proof (cases "dropWhile (\<lambda>c. c = CHR '' '') (rev cs) = []")
    case True
    then have "TrimRight_space cs = []" using Cons by simp
    moreover from True have "\<forall>x\<in>set (rev cs). x = CHR '' ''"
      by (simp add: dropWhile_eq_Nil_conv)
    ultimately show ?thesis
      by (simp add: dropWhile_append Let_def)
  next
    case False
    then have ne: "TrimRight_space cs \<noteq> []" using Cons by simp
    from False have "\<exists>x\<in>set (rev cs). x \<noteq> CHR '' ''"
      by (simp add: dropWhile_eq_Nil_conv)
    then show ?thesis using ne Cons
      by (auto simp: dropWhile_append Let_def)
  qed
qed

lemma set_TrimRight_space: "set (TrimRight_space s) \<subseteq> set s"
  by (induction s) (auto simp: Let_def)

lemma RuneCountInString_ascii:
  "list_all (\<lambda>c. (of_char c :: nat) < 128) s \<Longrightarrow> RuneCountInString s = length s"
  by (induction s) (simp_all add: rune_width_def)

lemma TrimRight_space_ascii:
  "list_all (\<lambda>c. (of_char c :: nat) < 128) s \<Longrightarrow>
   list_all (\<lambda>c. (of_char c :: nat) < 128) (TrimRight_space s)"
  using set_TrimRight_space [of s] by (auto simp: list_all_iff)

lemma length_TrimRight_space: "length (TrimRight_space s) \<le> length s"
  by (induction s) (auto simp: Let_def)

lemmas text_defs = Char_value_def VarChar_def Text_def pgText_Scan_def pgText_fit_def
  Sprintf_left_justified_def fmt_width_refused_def

lemma Text_string:
  "Text (SString s) = (\<lparr>text_s = s, text_n = 0, text_p = False, text_valid = True\<rparr>, None)"
  by (simp add: text_defs)

lemma fmt_width_accepted: "w < 10000010 \<Longrightarrow> \<not> fmt_width_refused w"
  unfolding fmt_width_refused_def by presburger

text \<open>
  C4, as amended. \<^verbatim>\<open>Char(n)\<close> trims the trailing spaces of \<open>s\<close> and fails if more than \<open>n\<close>
  bytes are left. Otherwise, for a width \<open>n\<close> below \<open>10000010\<close>, it holds the trimmed string,
  padded on the right with spaces when it is shorter than \<open>n\<close> bytes; for a string of one-byte
  characters (ASCII) the string held is exactly \<open>n\<close> bytes long. \<^verbatim>\<open>VarChar(n)\<close> never fails:
  with \<open>n \<ge> 1\<close> it holds the first \<open>n\<close> bytes of \<open>s\<close> (all of \<open>s\<close> when it is not longer), and
  otherwise \<open>s\<close> as it is. \<^verbatim>\<open>Text\<close> holds \<open>s\<close> as it is.
\<close>

theorem C4_text_decode:
  "(w < int (length (TrimRight_space s)) \<longrightarrow>
      Char_value w (SString s :: 'v src) = Inl (CannotFitChar (TrimRight_space s) w))
   \<and> (int (length (TrimRight_space s)) \<le> w \<and> w < 10000010 \<longrightarrow>
      Char_value w (SString s :: 'v src) =
        Inr \<lparr>text_s = (if int (length (TrimRight_space s)) < w
                         then TrimRight_space s
                              @ replicate (nat w - RuneCountInString (TrimRight_space s))
                                  (CHR '' '')
                         else TrimRight_space s),
              text_n = w, text_p = True, text_valid = True\<rparr>)
   \<and> (\<forall>k. list_all (\<lambda>c. (of_char c :: nat) < 128) s \<and> w < 10000010
           \<and> Char_value w (SString s :: 'v src) = Inr k \<longrightarrow> int (length (text_s k)) = w)
   \<and> VarChar w (SString s :: 'v src) =
       Inr \<lparr>text_s = (if 0 < w then take (nat w) s else s), text_n = w, text_p = False,
            text_valid = True\<rparr>
   \<and> Text (SString s :: 'v src)
       = (\<lparr>text_s = s, text_n = 0, text_p = False, text_valid = True\<rparr>, None)"
proof (intro conjI impI allI)
  assume "w < int (length (TrimRight_space s))"
  then show "Char_value w (SString s :: 'v src) = Inl (CannotFitChar (TrimRight_space s) w)"
    by (simp add: text_defs Let_def)
next
  assume h: "int (length (TrimRight_space s)) \<le> w \<and> w < 10000010"
  then have "\<not> fmt_width_refused w" by (simp add: fmt_width_accepted)
  then show "Char_value w (SString s :: 'v src) =
        Inr \<lparr>text_s = (if int (length (TrimRight_space s)) < w
                         then TrimRight_space s
                              @ replicate (nat w - RuneCountInString (TrimRight_space s))
                                  (CHR '' '')
                         else TrimRight_space s),
              text_n = w, text_p = True, text_valid = True\<rparr>"
    using h
    by (simp add: Char_value_def pgText_Scan_def pgText_fit_def Sprintf_left_justified_def
        Let_def)
next
  show "VarChar w (SString s :: 'v src) =
       Inr \<lparr>text_s = (if 0 < w then take (nat w) s else s), text_n = w, text_p = False,
            text_valid = True\<rparr>"
    by (simp add: text_defs)
next
  show "Text (SString s :: 'v src)
       = (\<lparr>text_s = s, text_n = 0, text_p = False, text_valid = True\<rparr>, None)"
    by (rule Text_string)
next
  fix k
  assume a: "list_all (\<lambda>c. (of_char c :: nat) < 128) s \<and> w < 10000010
             \<and> Char_value w (SString s :: 'v src) = Inr k"
  then have rc: "RuneCountInString (TrimRight_space s) = length (TrimRight_space s)"
    by (simp add: RuneCountInString_ascii TrimRight_space_ascii)
  from a have nr: "\<not> fmt_width_refused w" by (simp add: fmt_width_accepted)
  from a have "Char_value w (SString s :: 'v src) = Inr k" by simp
  then show "int (length (text_s k)) = w"
    using nr rc
    by (auto simp: Char_value_def pgText_Scan_def pgText_fit_def Sprintf_left_justified_def
        Let_def split: if_splits)
qed

text \<open>
  The theorem at the inputs of the test suite: \<^verbatim>\<open>Char(1)\<close> on \<open>D\<close>, \<^verbatim>\<open>VarChar(1)\<close> on
  \<open>BB\<close>, and \<^verbatim>\<open>Char\<close> on a string with trailing spaces.
\<close>

theorem C4_text_decode_witness:
  "Char_value 3 (SString ''ab  '' :: unit src) =
     Inr \<lparr>text_s = ''ab '', text_n = 3, text_p = True, text_valid = True\<rparr>
   \<and> int (length ''ab '') = 3
   \<and> Char_value 1 (SString ''ab  '' :: unit src) = Inl (CannotFitChar ''ab'' 1)
   \<and> Char_value 1 (SString ''D'' :: unit src) =
     Inr \<lparr>text_s = ''D'', text_n = 1, text_p = True, text_valid = True\<rparr>
   \<and> VarChar 1 (SString ''BB'' :: unit src) =
     Inr \<lparr>text_s = ''B'', text_n = 1, text_p = False, text_valid = True\<rparr>"
  using C4_text_decode [where s = "''ab  ''" and w = 3 and ?'v = unit]
    C4_text_decode [where s = "''ab  ''" and w = 1 and ?'v = unit]
    C4_text_decode [where s = "''D''" and w = 1 and ?'v = unit]
    C4_text_decode [where s = "''BB''" and w = 1 and ?'v = unit]
  by (simp add: numeral_eq_Suc rune_width_def)

text \<open>
  C4 as stated fails in three places. \<^verbatim>\<open>VarChar(0)\<close> does not truncate: the guard
  \<^verbatim>\<open>k.n > 0\<close> keeps the width 0 for unbounded text. The padding of \<^verbatim>\<open>Char(n)\<close> counts
  code points where the length test counts bytes: the two bytes of the UTF-8 letter \<open>U+00E9\<close>
  are padded by \<^verbatim>\<open>Char(3)\<close> to four bytes. And \<^verbatim>\<open>fmt\<close> refuses the width \<open>10000010\<close>:
  \<^verbatim>\<open>Char(10000010)\<close> on the string \<open>a\<close> holds a text of 28 bytes, without error.
\<close>

theorem C4_counterexample:
  "VarChar 0 (SString ''BB'') =
     Inr \<lparr>text_s = ''BB'', text_n = 0, text_p = False, text_valid = True\<rparr>
   \<and> ''BB'' \<noteq> take (nat 0) ''BB''
   \<and> Char_value 3 (SBytes [CHR 0xC3, CHR 0xA9]) =
     Inr \<lparr>text_s = [CHR 0xC3, CHR 0xA9, CHR '' '', CHR '' ''], text_n = 3, text_p = True,
          text_valid = True\<rparr>
   \<and> length [CHR 0xC3, CHR 0xA9, CHR '' '', CHR '' ''] \<noteq> 3
   \<and> Char_value 10000010 (SString ''a'') =
     Inr \<lparr>text_s = ''%!(NOVERB)%!(EXTRA string=a)'', text_n = 10000010, text_p = True,
          text_valid = True\<rparr>
   \<and> int (length ''%!(NOVERB)%!(EXTRA string=a)'') = 28"
proof -
  have "VarChar 0 (SString ''BB'') =
     Inr \<lparr>text_s = ''BB'', text_n = 0, text_p = False, text_valid = True\<rparr>
   \<and> ''BB'' \<noteq> take (nat 0) ''BB''
   \<and> Char_value 3 (SBytes [CHR 0xC3, CHR 0xA9]) =
     Inr \<lparr>text_s = [CHR 0xC3, CHR 0xA9, CHR '' '', CHR '' ''], text_n = 3, text_p = True,
          text_valid = True\<rparr>
   \<and> length [CHR 0xC3, CHR 0xA9, CHR '' '', CHR '' ''] \<noteq> 3"
    by (simp add: text_defs Let_def rune_width_def utf8_seq_def byte_in_def numeral_eq_Suc)
  moreover have "Char_value 10000010 (SString ''a'') =
     Inr \<lparr>text_s = ''%!(NOVERB)%!(EXTRA string=a)'', text_n = 10000010, text_p = True,
          text_valid = True\<rparr>
   \<and> int (length ''%!(NOVERB)%!(EXTRA string=a)'') = 28"
    by (simp add: text_defs Let_def)
  ultimately show ?thesis by blast
qed

section \<open>The hstore literal of the test suite\<close>

lemma parse_hstore_example:
  "parseHStore hstore_example =
     Returns [(''k1'', ''v1''), (''k'' @ [dquote] @ ''2'', [dquote] @ ''v2'' @ [dquote])]"
  unfolding parseHStore_def hstore_example_def
  by (simp add: parseHStore_from.simps hstore_switch_def hstore_collect_def null_at_def
      slice_ok_def subslice_def hstore_unescape_def Let_def
      cong: outcome.case_cong_weak prod.case_cong_weak)

text \<open>
  C7. Decoding the bytes \<open>"k1" => "v1", "k\\"2" => "\\"v2\\"", "k3" => NULL\<close> returns without
  error a store in which \<open>k1\<close> holds \<open>v1\<close>, \<open>k"2\<close> holds \<open>"v2"\<close>, and \<open>k3\<close> is absent.
\<close>

theorem C7_hstore_example:
  "(case HStore (SBytes hstore_example) of
      Panics p \<Rightarrow> False
    | Returns (k, err) \<Rightarrow>
        err = None
        \<and> map_option pgText_String (pgHStore_ValueBy k ''k1'') = Some ''v1''
        \<and> map_option pgText_String (pgHStore_ValueBy k (''k'' @ [dquote] @ ''2''))
            = Some ([dquote] @ ''v2'' @ [dquote])
        \<and> pgHStore_ValueBy k ''k3'' = None)"
  by (simp add: HStore_def pgHStore_Scan_def parse_hstore_example
      pgHStore_ValueBy_def pgText_String_def Text_string)

section \<open>Properties of the float decode\<close>

lemmas float_defs = Real_def Double_def newFloat_def pgFloat_Scan_def MaxFloat32_def

lemma Real_rejects_large_positive:
  "Real pf (SFloat64 (Finite (2 ^ 128)))
   = (\<lparr>float_n = Finite 0, float_bs = 32, float_valid = True\<rparr>, Some (CannotFitReal (Finite (2 ^ 128))))"
  by (simp add: float_defs)

lemma pgFloat_String_32:
  "float_valid k \<Longrightarrow> pgFloat_String ff k = ff (float_n k) (CHR ''f'') (- 1) 32"
  by (simp add: pgFloat_String_def)

text \<open>
  C8. The claim has a 32-bit float value reject every native \<^verbatim>\<open>float64\<close> whose magnitude
  exceeds the 32-bit maximum. \<^verbatim>\<open>Scan\<close> compares \<^verbatim>\<open>x > math.MaxFloat32\<close> only: the number
  \<open>-2\<^sup>1\<^sup>2\<^sup>8\<close>, whose magnitude exceeds the maximum, is accepted and stored.
\<close>

theorem C8_Real_accepts_large_negative:
  "Real pf (SFloat64 (Finite (- (2 ^ 128))))
     = (\<lparr>float_n = Finite (- (2 ^ 128)), float_bs = 32, float_valid = True\<rparr>, None)
   \<and> (2 ^ 24 - 1) * 2 ^ 104 < \<bar>- (2 ^ 128) :: real\<bar>"
  by (simp add: float_defs)

section \<open>Named access to the fields of a record\<close>

lemma ValueBy_from_absent:
  "name \<notin> set (map col_name cs) \<Longrightarrow> ValueBy_from vs cs i name = Returns None"
  by (induction cs arbitrary: i) auto

lemma ValueBy_from_first:
  "j < length cs \<Longrightarrow> col_name (cs ! j) = name \<Longrightarrow> \<forall>l<j. col_name (cs ! l) \<noteq> name \<Longrightarrow>
   i + j < length vs \<Longrightarrow> ValueBy_from vs cs i name = Returns (Some (vs ! (i + j)))"
proof (induction cs arbitrary: i j)
  case Nil
  then show ?case by simp
next
  case (Cons c cs)
  show ?case
  proof (cases j)
    case 0
    with Cons.prems show ?thesis by simp
  next
    case (Suc j')
    have ne: "col_name c \<noteq> name" using Cons.prems(3) Suc by auto
    have "ValueBy_from vs cs (i + 1) name = Returns (Some (vs ! (i + 1 + j')))"
    proof (rule Cons.IH)
      show "j' < length cs" using Cons.prems(1) Suc by simp
      show "col_name (cs ! j') = name" using Cons.prems(2) Suc by simp
      show "\<forall>l<j'. col_name (cs ! l) \<noteq> name" using Cons.prems(3) Suc by auto
      show "i + 1 + j' < length vs" using Cons.prems(4) Suc by simp
    qed
    then show ?thesis using ne Suc by simp
  qed
qed

text \<open>
  C9. In a record with as many children as columns, named access with a name that no column
  has yields no child: \<^verbatim>\<open>ValueBy\<close> returns nil and \<^verbatim>\<open>Get\<close> panics with the message
  \<open>No column\<close> and the name. With the name of a column, both reach the child at the position
  of the first column of that name.
\<close>

theorem C9_record_lookup:
  assumes "length (rec_vs k) = length (rec_cs k)"
  shows "(name \<notin> set (map col_name (rec_cs k)) \<longrightarrow>
            pgRecord_ValueBy k name = Returns None
            \<and> pgRecord_Get I k name = Panics (ExplicitPanic (NoColumn name)))
       \<and> (\<forall>i. i < length (rec_cs k) \<and> col_name (rec_cs k ! i) = name
                \<and> (\<forall>j<i. col_name (rec_cs k ! j) \<noteq> name) \<longrightarrow>
            pgRecord_ValueBy k name = Returns (Some (rec_vs k ! i))
            \<and> pgRecord_Get I k name = Returns (vVal I (rec_vs k ! i)))"
proof (intro conjI impI allI)
  assume "name \<notin> set (map col_name (rec_cs k))"
  then show a: "pgRecord_ValueBy k name = Returns None"
    unfolding pgRecord_ValueBy_def by (rule ValueBy_from_absent)
  show "pgRecord_Get I k name = Panics (ExplicitPanic (NoColumn name))"
    by (simp add: pgRecord_Get_def a)
next
  fix i
  assume h: "i < length (rec_cs k) \<and> col_name (rec_cs k ! i) = name
             \<and> (\<forall>j<i. col_name (rec_cs k ! j) \<noteq> name)"
  have "ValueBy_from (rec_vs k) (rec_cs k) 0 name = Returns (Some (rec_vs k ! (0 + i)))"
    using h assms by (intro ValueBy_from_first) simp_all
  then show b: "pgRecord_ValueBy k name = Returns (Some (rec_vs k ! i))"
    by (simp add: pgRecord_ValueBy_def)
  show "pgRecord_Get I k name = Returns (vVal I (rec_vs k ! i))"
    by (simp add: pgRecord_Get_def b)
qed

lemmas split_eval = split_def split_from.simps split_switch_def split_inside_def split_collect_def
  split_unescape_def slice_ok_def subslice_def Let_def

lemma split_jeff: "split ''(jeff,53)'' = Returns (Inr [''jeff'', ''53''])"
  by (simp add: split_eval cong: outcome.case_cong_weak sum.case_cong_weak)

lemma record_example_scan:
  "pgRecord_Scan text_or_int_Value record_example (SBytes ''(jeff,53)'') = Returns (jeff_record, None)"
  by (simp add: pgRecord_Scan_def rowScanner_def srcToBytes_def split_jeff record_example_def
      text_or_int_Value_def pgText_Scan_def pgText_fit_def pgInteger_Scan_def jeff_record_def
      ParseInt_def ParseUint_def is_digit_def digit_val_def)

text \<open>
  The record of the test suite: \<open>age\<close> finds the integer 53, \<open>height\<close> finds nothing.
\<close>

theorem C9_record_lookup_witness:
  "pgRecord_ValueBy jeff_record ''age'' = Returns (Some (AnInteger \<lparr>int_n = 53, int_bs = 64, int_valid = True\<rparr>))
   \<and> pgRecord_Get text_or_int_Value jeff_record ''age'' = Returns (NInt64 53)
   \<and> pgRecord_ValueBy jeff_record ''height'' = Returns None
   \<and> pgRecord_Get text_or_int_Value jeff_record ''height'' = Panics (ExplicitPanic (NoColumn ''height''))"
proof -
  have len: "length (rec_vs jeff_record) = length (rec_cs jeff_record)" by (simp add: jeff_record_def)
  have "pgRecord_ValueBy jeff_record ''age'' = Returns (Some (rec_vs jeff_record ! 1))
        \<and> pgRecord_Get text_or_int_Value jeff_record ''age'' = Returns (vVal text_or_int_Value (rec_vs jeff_record ! 1))"
    using C9_record_lookup [OF len, of "''age''" text_or_int_Value, THEN conjunct2, THEN spec, of 1]
    by (simp add: jeff_record_def Col_def less_Suc_eq)
  moreover have "pgRecord_ValueBy jeff_record ''height'' = Returns None
        \<and> pgRecord_Get text_or_int_Value jeff_record ''height'' = Panics (ExplicitPanic (NoColumn ''height''))"
    using C9_record_lookup [OF len, of "''height''" text_or_int_Value, THEN conjunct1]
    by (simp add: jeff_record_def Col_def)
  ultimately show ?thesis
    by (simp add: jeff_record_def text_or_int_Value_def pgInteger_Val_def)
qed


section \<open>The NULL state\<close>

lemma pgArray_Append_valid:
  "pgArray_Append I k x = Returns (k1, e) \<Longrightarrow> array_valid k \<Longrightarrow> array_valid k1"
  by (auto simp: pgArray_Append_def split: src.splits prod.splits option.splits outcome.splits)

lemma pgArray_Append_all_valid:
  "pgArray_Append_all I k ds = Returns (k1, e) \<Longrightarrow> array_valid k \<Longrightarrow> array_valid k1"
proof (induction ds arbitrary: k)
  case Nil
  then show ?case by simp
next
  case (Cons d ds)
  then show ?case
    by (auto split: outcome.splits prod.splits option.splits dest: pgArray_Append_valid)
qed

lemma pgArray_Scan_not_null:
  "x \<noteq> SNil \<Longrightarrow> pgArray_Scan I k x = Returns (k1, e) \<Longrightarrow> array_valid k1"
  by (cases x)
     (auto simp: pgArray_Scan_def Let_def srcToBytes_def
           split: outcome.splits prod.splits option.splits sum.splits
           dest: pgArray_Append_all_valid)

lemma pgRow_Scan_not_null:
  "x \<noteq> SNil \<Longrightarrow> pgRow_Scan I k x = Returns (k1, e) \<Longrightarrow> row_valid k1"
  by (cases x) (auto simp: pgRow_Scan_def split: outcome.splits prod.splits)

lemma pgRecord_Scan_not_null:
  "x \<noteq> SNil \<Longrightarrow> pgRecord_Scan I k x = Returns (k1, e) \<Longrightarrow> rec_valid k1"
  by (cases x) (auto simp: pgRecord_Scan_def split: outcome.splits prod.splits)

lemma pgBool_Scan_not_null:
  "x \<noteq> SNil \<Longrightarrow> pgBool_Scan k x = Returns (k1, e) \<Longrightarrow> bool_valid k1"
  by (cases x) (auto simp: pgBool_Scan_def Let_def split: if_splits)

lemma pgInteger_Scan_not_null:
  "x \<noteq> SNil \<Longrightarrow> pgInteger_Scan k x = (k1, e) \<Longrightarrow> int_valid k1"
  by (cases x) (auto simp: pgInteger_Scan_def Let_def split: if_splits prod.splits)

lemma pgFloat_Scan_not_null:
  "x \<noteq> SNil \<Longrightarrow> pgFloat_Scan pf k x = (k1, e) \<Longrightarrow> float_valid k1"
  by (cases x) (auto simp: pgFloat_Scan_def Let_def split: if_splits prod.splits)

lemma pgText_Scan_not_null:
  "x \<noteq> SNil \<Longrightarrow> pgText_Scan k x = (k1, e) \<Longrightarrow> text_valid k1"
  by (cases x) (auto simp: pgText_Scan_def pgText_fit_def Let_def split: if_splits)

lemma pgBytea_Scan_not_null:
  "x \<noteq> SNil \<Longrightarrow> pgBytea_Scan k x = (k1, e) \<Longrightarrow> bytea_valid k1"
  by (cases x) (auto simp: pgBytea_Scan_def)

lemma pgNumeric_Scan_not_null:
  "x \<noteq> SNil \<Longrightarrow> pgNumeric_Scan ff k x = (k1, e) \<Longrightarrow> num_valid k1"
  by (cases x) (auto simp: pgNumeric_Scan_def)

lemma pgEnum_Scan_not_null:
  "x \<noteq> SNil \<Longrightarrow> pgEnum_Scan k x = (k1, e) \<Longrightarrow> enum_valid k1"
  by (cases x) (auto simp: pgEnum_Scan_def pgEnum_check_def split: if_splits)

lemma pgTimestamp_Scan_not_null:
  "x \<noteq> SNil \<Longrightarrow> pgTimestamp_Scan tp z k x = Returns (k1, e) \<Longrightarrow> ts_valid k1"
  by (cases x) (auto simp: pgTimestamp_Scan_def split: outcome.splits prod.splits)

lemma hstore_fill_valid:
  "hstore_fill k keyvals = (k1, e) \<Longrightarrow> hstore_valid k1 = hstore_valid k"
  by (induction k keyvals rule: hstore_fill.induct)
     (auto split: prod.splits option.splits)

lemma pgHStore_Scan_not_null:
  "x \<noteq> SNil \<Longrightarrow> pgHStore_Scan k x = Returns (k1, e) \<Longrightarrow> hstore_valid k1"
  by (cases x)
     (auto simp: pgHStore_Scan_def Let_def split: outcome.splits dest: hstore_fill_valid)

lemma pgBool_null:
  "pgBool_Scan kb (SNil :: 'v src) = Returns (kb\<lparr>bool_valid := False\<rparr>, None)"
  "pgBool_IsNull kb \<Longrightarrow>
     pgBool_Val kb = NNil \<and> pgBool_String kb = [] \<and> pgBool_bytes kb = (nullBytes, None)"
  by (simp_all add: pgBool_Scan_def pgBool_IsNull_def pgBool_Val_def pgBool_String_def
      pgBool_bytes_def)

lemma pgInteger_null:
  "pgInteger_Scan ki (SNil :: 'v src) = (ki\<lparr>int_valid := False\<rparr>, None)"
  "pgInteger_IsNull ki \<Longrightarrow>
     pgInteger_Val ki = NNil \<and> pgInteger_String ki = [] \<and> pgInteger_bytes ki = (nullBytes, None)"
  by (simp_all add: pgInteger_Scan_def pgInteger_IsNull_def pgInteger_Val_def pgInteger_String_def
      pgInteger_bytes_def)

lemma pgFloat_null:
  "pgFloat_Scan pf kf (SNil :: 'v src) = (kf\<lparr>float_valid := False\<rparr>, None)"
  "pgFloat_IsNull kf \<Longrightarrow>
     pgFloat_Val kf = NNil \<and> pgFloat_String ff kf = [] \<and> pgFloat_bytes ff kf = (nullBytes, None)"
  by (simp_all add: pgFloat_Scan_def pgFloat_IsNull_def pgFloat_Val_def pgFloat_String_def
      pgFloat_bytes_def)

lemma pgText_null:
  "pgText_Scan kt (SNil :: 'v src) = (kt\<lparr>text_valid := False\<rparr>, None)"
  "pgText_IsNull kt \<Longrightarrow>
     pgText_Val kt = NNil \<and> pgText_String kt = [] \<and> pgText_bytes kt = (nullBytes, None)"
  by (simp_all add: pgText_Scan_def pgText_IsNull_def pgText_Val_def pgText_String_def
      pgText_bytes_def)

lemma pgBytea_null:
  "pgBytea_Scan ky (SNil :: 'v src) = (ky\<lparr>bytea_valid := False\<rparr>, None)"
  "pgBytea_IsNull ky \<Longrightarrow>
     pgBytea_Val ky = NNil \<and> pgBytea_String ky = [] \<and> pgBytea_bytes ky = (nullBytes, None)"
  by (simp_all add: pgBytea_Scan_def pgBytea_IsNull_def pgBytea_Val_def pgBytea_String_def
      pgBytea_bytes_def)

lemma pgNumeric_null:
  "pgNumeric_Scan ff kn (SNil :: 'v src) = (kn\<lparr>num_valid := False\<rparr>, None)"
  "pgNumeric_IsNull kn \<Longrightarrow>
     pgNumeric_Val kn = NNil \<and> pgNumeric_String kn = [] \<and> pgNumeric_bytes kn = (nullBytes, None)"
  by (simp_all add: pgNumeric_Scan_def pgNumeric_IsNull_def pgNumeric_Val_def pgNumeric_String_def
      pgNumeric_bytes_def)

lemma pgEnum_null:
  "pgEnum_Scan ke (SNil :: 'v src) = (ke\<lparr>enum_valid := False\<rparr>, None)"
  "pgEnum_IsNull ke \<Longrightarrow>
     pgEnum_Val ke = NNil \<and> pgEnum_String ke = [] \<and> pgEnum_bytes ke = (nullBytes, None)"
  by (simp_all add: pgEnum_Scan_def pgEnum_IsNull_def pgEnum_Val_def pgEnum_String_def
      pgEnum_bytes_def)

lemma pgTimestamp_null:
  "pgTimestamp_Scan tp z ks (SNil :: 'v src) = Returns (ks\<lparr>ts_valid := False\<rparr>, None)"
  "pgTimestamp_IsNull ks \<Longrightarrow>
     pgTimestamp_Val ks = NNil \<and> pgTimestamp_String tf ks = [] \<and> pgTimestamp_bytes tf ks = (nullBytes, None)"
  by (simp_all add: pgTimestamp_Scan_def pgTimestamp_IsNull_def pgTimestamp_Val_def pgTimestamp_String_def
      pgTimestamp_bytes_def)

lemma pgArray_Append_Value:
  "pgArray_Append I k (SValue v)
     = Returns (k\<lparr>array_vs := array_vs k @ [v], array_valid := True\<rparr>, None)"
  by (simp add: pgArray_Append_def)

lemma pgArray_Append_not_null:
  "pgArray_Append I k x = Returns (k1, None) \<Longrightarrow> array_valid k1"
  by (auto simp: pgArray_Append_def split: src.splits prod.splits option.splits outcome.splits)

lemma pgArray_Append_error:
  "pgArray_Append I k x = Returns (k1, Some err) \<Longrightarrow> k1 = k"
  by (auto simp: pgArray_Append_def split: src.splits prod.splits option.splits outcome.splits)

lemma pgArray_null:
  "pgArray_Scan I ka (SNil :: 'v src) = Returns (ka\<lparr>array_vs := [], array_valid := False\<rparr>, None)"
  "pgArray_IsNull ka \<Longrightarrow>
     pgArray_Val I ka = NNil \<and> pgArray_String I ka = [] \<and> pgArray_bytes I ka = (nullBytes, None)"
  by (simp_all add: pgArray_Scan_def pgArray_IsNull_def pgArray_Val_def pgArray_String_def
      pgArray_bytes_def Let_def)

lemma pgRow_null:
  "pgRow_Scan I kr (SNil :: 'v src) = Returns (kr\<lparr>row_valid := False\<rparr>, None)"
  "pgRow_IsNull kr \<Longrightarrow>
     pgRow_Val I kr = NNil \<and> pgRow_String I kr = [] \<and> pgRow_bytes I kr = (nullBytes, None)"
  by (simp_all add: pgRow_Scan_def pgRow_IsNull_def pgRow_Val_def pgRow_String_def
      pgRow_bytes_def rowBytes_def)

lemma pgRecord_null:
  "pgRecord_Scan I kc (SNil :: 'v src) = Returns (kc\<lparr>rec_valid := False\<rparr>, None)"
  "pgRecord_IsNull kc \<Longrightarrow>
     pgRecord_Val I kc = NNil \<and> pgRecord_String I kc = [] \<and> pgRecord_bytes I kc = (nullBytes, None)"
  by (simp_all add: pgRecord_Scan_def pgRecord_IsNull_def pgRecord_Val_def pgRecord_String_def
      pgRecord_bytes_def rowBytes_def)

lemma pgHStore_null:
  "pgHStore_Scan kh (SNil :: 'v src) = Returns (kh\<lparr>hstore_m := [], hstore_valid := False\<rparr>, None)"
  "pgHStore_IsNull kh \<Longrightarrow> pgHStore_Val kh = Returns NNil \<and> pgHStore_String kh = []"
  by (simp_all add: pgHStore_Scan_def pgHStore_IsNull_def pgHStore_Val_def pgHStore_String_def)

text \<open>
  C5, as amended. For each of the twelve value types, whatever the state of the value before:
  decoding nil returns no error and leaves the value NULL; while it is NULL, \<^verbatim>\<open>Val\<close>
  returns nil and \<^verbatim>\<open>String\<close> the empty string, and \<^verbatim>\<open>bytes\<close> returns the bytes \<open>NULL\<close>
  (nothing is said of \<^verbatim>\<open>bytes\<close> of the key/value store); and the value is not NULL after
  any decode of an input other than nil that returns, with or without an error. For an array,
  \<^verbatim>\<open>Append\<close> ends the NULL state as well, without any decode of the array: the array is
  not NULL after an \<^verbatim>\<open>Append\<close> that returns no error, as the \<^verbatim>\<open>Append\<close> of an element that
  is a value already always does, and is left as it was by an \<^verbatim>\<open>Append\<close> that returns an
  error. Nothing is said of the state after a decode or an \<^verbatim>\<open>Append\<close> that panics.
\<close>

theorem C5_null_state:
  "(pgBool_Scan kb (SNil :: 'v src) = Returns (kb\<lparr>bool_valid := False\<rparr>, None)
    \<and> (pgBool_IsNull kb \<longrightarrow>
           pgBool_Val kb = NNil \<and> pgBool_String kb = [] \<and> pgBool_bytes kb = (nullBytes, None))
    \<and> (\<forall>x k1 e. x \<noteq> (SNil :: 'v src) \<and> pgBool_Scan kb x = Returns (k1, e) \<longrightarrow> \<not> pgBool_IsNull k1))
   \<and> (pgInteger_Scan ki (SNil :: 'v src) = (ki\<lparr>int_valid := False\<rparr>, None)
    \<and> (pgInteger_IsNull ki \<longrightarrow>
           pgInteger_Val ki = NNil \<and> pgInteger_String ki = [] \<and> pgInteger_bytes ki = (nullBytes, None))
    \<and> (\<forall>x k1 e. x \<noteq> (SNil :: 'v src) \<and> pgInteger_Scan ki x = (k1, e) \<longrightarrow> \<not> pgInteger_IsNull k1))
   \<and> (pgFloat_Scan pf kf (SNil :: 'v src) = (kf\<lparr>float_valid := False\<rparr>, None)
    \<and> (pgFloat_IsNull kf \<longrightarrow>
           pgFloat_Val kf = NNil \<and> pgFloat_String ff kf = [] \<and> pgFloat_bytes ff kf = (nullBytes, None))
    \<and> (\<forall>x k1 e. x \<noteq> (SNil :: 'v src) \<and> pgFloat_Scan pf kf x = (k1, e) \<longrightarrow> \<not> pgFloat_IsNull k1))
   \<and> (pgText_Scan kt (SNil :: 'v src) = (kt\<lparr>text_valid := False\<rparr>, None)
    \<and> (pgText_IsNull kt \<longrightarrow>
           pgText_Val kt = NNil \<and> pgText_String kt = [] \<and> pgText_bytes kt = (nullBytes, None))
    \<and> (\<forall>x k1 e. x \<noteq> (SNil :: 'v src) \<and> pgText_Scan kt x = (k1, e) \<longrightarrow> \<not> pgText_IsNull k1))
   \<and> (pgBytea_Scan ky (SNil :: 'v src) = (ky\<lparr>bytea_valid := False\<rparr>, None)
    \<and> (pgBytea_IsNull ky \<longrightarrow>
           pgBytea_Val ky = NNil \<and> pgBytea_String ky = [] \<and> pgBytea_bytes ky = (nullBytes, None))
    \<and> (\<forall>x k1 e. x \<noteq> (SNil :: 'v src) \<and> pgBytea_Scan ky x = (k1, e) \<longrightarrow> \<not> pgBytea_IsNull k1))
   \<and> (pgNumeric_Scan ff kn (SNil :: 'v src) = (kn\<lparr>num_valid := False\<rparr>, None)
    \<and> (pgNumeric_IsNull kn \<longrightarrow>
           pgNumeric_Val kn = NNil \<and> pgNumeric_String kn = [] \<and> pgNumeric_bytes kn = (nullBytes, None))
    \<and> (\<forall>x k1 e. x \<noteq> (SNil :: 'v src) \<and> pgNumeric_Scan ff kn x = (k1, e) \<longrightarrow> \<not> pgNumeric_IsNull k1))
   \<and> (pgEnum_Scan ke (SNil :: 'v src) = (ke\<lparr>enum_valid := False\<rparr>, None)
    \<and> (pgEnum_IsNull ke \<longrightarrow>
           pgEnum_Val ke = NNil \<and> pgEnum_String ke = [] \<and> pgEnum_bytes ke = (nullBytes, None))
    \<and> (\<forall>x k1 e. x \<noteq> (SNil :: 'v src) \<and> pgEnum_Scan ke x = (k1, e) \<longrightarrow> \<not> pgEnum_IsNull k1))
   \<and> (pgTimestamp_Scan tp z ks (SNil :: 'v src) = Returns (ks\<lparr>ts_valid := False\<rparr>, None)
    \<and> (pgTimestamp_IsNull ks \<longrightarrow>
           pgTimestamp_Val ks = NNil \<and> pgTimestamp_String tf ks = [] \<and> pgTimestamp_bytes tf ks = (nullBytes, None))
    \<and> (\<forall>x k1 e. x \<noteq> (SNil :: 'v src) \<and> pgTimestamp_Scan tp z ks x = Returns (k1, e) \<longrightarrow> \<not> pgTimestamp_IsNull k1))
   \<and> (pgArray_Scan I ka (SNil :: 'v src) = Returns (ka\<lparr>array_vs := [], array_valid := False\<rparr>, None)
    \<and> (pgArray_IsNull ka \<longrightarrow>
           pgArray_Val I ka = NNil \<and> pgArray_String I ka = [] \<and> pgArray_bytes I ka = (nullBytes, None))
    \<and> (\<forall>x k1 e. x \<noteq> (SNil :: 'v src) \<and> pgArray_Scan I ka x = Returns (k1, e) \<longrightarrow> \<not> pgArray_IsNull k1))
   \<and> (pgRow_Scan I kr (SNil :: 'v src) = Returns (kr\<lparr>row_valid := False\<rparr>, None)
    \<and> (pgRow_IsNull kr \<longrightarrow>
           pgRow_Val I kr = NNil \<and> pgRow_String I kr = [] \<and> pgRow_bytes I kr = (nullBytes, None))
    \<and> (\<forall>x k1 e. x \<noteq> (SNil :: 'v src) \<and> pgRow_Scan I kr x = Returns (k1, e) \<longrightarrow> \<not> pgRow_IsNull k1))
   \<and> (pgRecord_Scan I kc (SNil :: 'v src) = Returns (kc\<lparr>rec_valid := False\<rparr>, None)
    \<and> (pgRecord_IsNull kc \<longrightarrow>
           pgRecord_Val I kc = NNil \<and> pgRecord_String I kc = [] \<and> pgRecord_bytes I kc = (nullBytes, None))
    \<and> (\<forall>x k1 e. x \<noteq> (SNil :: 'v src) \<and> pgRecord_Scan I kc x = Returns (k1, e) \<longrightarrow> \<not> pgRecord_IsNull k1))
   \<and> (pgHStore_Scan kh (SNil :: 'v src) = Returns (kh\<lparr>hstore_m := [], hstore_valid := False\<rparr>, None)
    \<and> (pgHStore_IsNull kh \<longrightarrow> pgHStore_Val kh = Returns NNil \<and> pgHStore_String kh = [])
    \<and> (\<forall>x k1 e. x \<noteq> (SNil :: 'v src) \<and> pgHStore_Scan kh x = Returns (k1, e) \<longrightarrow> \<not> pgHStore_IsNull k1))
   \<and> ((\<forall>v. pgArray_Append I ka (SValue v :: 'v src)
              = Returns (ka\<lparr>array_vs := array_vs ka @ [v], array_valid := True\<rparr>, None))
    \<and> (\<forall>x k1. pgArray_Append I ka (x :: 'v src) = Returns (k1, None) \<longrightarrow> \<not> pgArray_IsNull k1)
    \<and> (\<forall>x k1 err. pgArray_Append I ka (x :: 'v src) = Returns (k1, Some err) \<longrightarrow> k1 = ka))"
  by (intro conjI impI allI;
      (elim conjE)?;
      (simp add: pgArray_Append_Value pgBool_null pgInteger_null pgFloat_null pgText_null pgBytea_null pgNumeric_null pgEnum_null pgTimestamp_null pgArray_null pgRow_null pgRecord_null pgHStore_null
        pgBool_IsNull_def pgInteger_IsNull_def pgFloat_IsNull_def pgText_IsNull_def pgBytea_IsNull_def pgNumeric_IsNull_def pgEnum_IsNull_def pgTimestamp_IsNull_def pgArray_IsNull_def pgRow_IsNull_def pgRecord_IsNull_def pgHStore_IsNull_def)?;
      (blast dest: pgArray_Append_not_null pgArray_Append_error pgBool_Scan_not_null pgInteger_Scan_not_null pgFloat_Scan_not_null pgText_Scan_not_null pgBytea_Scan_not_null pgNumeric_Scan_not_null pgEnum_Scan_not_null pgTimestamp_Scan_not_null pgArray_Scan_not_null pgRow_Scan_not_null pgRecord_Scan_not_null pgHStore_Scan_not_null)?)


text \<open>
  The theorem at one NULL value of each type, and at the \<^verbatim>\<open>Append\<close> of a text to a NULL
  array of texts.
\<close>

theorem C5_null_state_witness:
  "pgBool_bytes \<lparr>bool_b = True, bool_valid = False\<rparr> = (nullBytes, None)
   \<and> pgInteger_Val \<lparr>int_n = 7, int_bs = 32, int_valid = False\<rparr> = NNil
   \<and> pgFloat_Val \<lparr>float_n = Finite 1, float_bs = 64, float_valid = False\<rparr> = NNil
   \<and> pgText_String \<lparr>text_s = ''x'', text_n = 0, text_p = False, text_valid = False\<rparr> = []
   \<and> pgBytea_bytes \<lparr>bytea_b = ''x'', bytea_valid = False\<rparr> = (nullBytes, None)
   \<and> pgNumeric_Val \<lparr>num_s = ''1.5'', num_prec = 5, num_scale = 2, num_valid = False\<rparr> = NNil
   \<and> pgEnum_String \<lparr>enum_s = ''cat'', enum_ls = [''cat'', ''dog''], enum_valid = False\<rparr> = []
   \<and> pgTimestamp_Val \<lparr>ts_t = undefined, ts_tz = [], ts_valid = False\<rparr> = NNil
   \<and> pgArray_bytes text_or_int_Value
        \<lparr>array_vs = [], array_el = Text_child, array_valid = False\<rparr> = (nullBytes, None)
   \<and> pgRow_bytes text_or_int_Value \<lparr>row_vs = [], row_valid = False\<rparr> = (nullBytes, None)
   \<and> pgRecord_bytes text_or_int_Value record_example = (nullBytes, None)
   \<and> pgHStore_Val \<lparr>hstore_m = [], hstore_valid = False\<rparr> = Returns NNil
   \<and> pgRecord_Scan text_or_int_Value jeff_record SNil
       = Returns (jeff_record\<lparr>rec_valid := False\<rparr>, None)
   \<and> pgArray_Append text_or_int_Value
        \<lparr>array_vs = [], array_el = Text_child, array_valid = False\<rparr>
        (SValue (AText \<lparr>text_s = ''x'', text_n = 0, text_p = False, text_valid = True\<rparr>))
       = Returns (\<lparr>array_vs = [AText \<lparr>text_s = ''x'', text_n = 0, text_p = False,
                                        text_valid = True\<rparr>],
                   array_el = Text_child, array_valid = True\<rparr>, None)"
  using C5_null_state
    [where ?'v = text_or_int
       and kb = "\<lparr>bool_b = True, bool_valid = False\<rparr>"
       and ki = "\<lparr>int_n = 7, int_bs = 32, int_valid = False\<rparr>"
       and kf = "\<lparr>float_n = Finite 1, float_bs = 64, float_valid = False\<rparr>"
       and kt = "\<lparr>text_s = ''x'', text_n = 0, text_p = False, text_valid = False\<rparr>"
       and ky = "\<lparr>bytea_b = ''x'', bytea_valid = False\<rparr>"
       and kn = "\<lparr>num_s = ''1.5'', num_prec = 5, num_scale = 2, num_valid = False\<rparr>"
       and ke = "\<lparr>enum_s = ''cat'', enum_ls = [''cat'', ''dog''], enum_valid = False\<rparr>"
       and ks = "\<lparr>ts_t = undefined, ts_tz = [], ts_valid = False\<rparr>"
       and ka = "\<lparr>array_vs = [], array_el = Text_child, array_valid = False\<rparr>"
       and kr = "\<lparr>row_vs = [], row_valid = False\<rparr>"
       and kh = "\<lparr>hstore_m = [], hstore_valid = False\<rparr>"
       and I = text_or_int_Value]
    C5_null_state [where ?'v = text_or_int and kc = record_example and I = text_or_int_Value]
    C5_null_state [where ?'v = text_or_int and kc = jeff_record and I = text_or_int_Value]
  by (simp add: pgBool_IsNull_def pgInteger_IsNull_def pgFloat_IsNull_def pgText_IsNull_def
      pgBytea_IsNull_def pgNumeric_IsNull_def pgEnum_IsNull_def pgTimestamp_IsNull_def
      pgArray_IsNull_def pgRow_IsNull_def pgRecord_IsNull_def pgHStore_IsNull_def
      record_example_def)

text \<open>
  C5 as stated fails in three places. A decode that returns an error ends the NULL state all
  the same: a NULL integer that fails to decode \<open>abc\<close> is no longer NULL. An array leaves
  the NULL state without any decode: after the \<^verbatim>\<open>Append\<close> of a text, the array that
  decoding nil had left NULL is not NULL. And \<^verbatim>\<open>bytes\<close> of the key/value store does not look
  at \<^verbatim>\<open>k.valid\<close>: on the NULL store it returns the empty byte sequence, not the bytes \<open>NULL\<close>.
\<close>

theorem C5_counterexample:
  "Integer SNil = (\<lparr>int_n = 0, int_bs = 32, int_valid = False\<rparr>, None)
   \<and> pgInteger_Scan \<lparr>int_n = 0, int_bs = 32, int_valid = False\<rparr> (SString ''abc'')
       = (\<lparr>int_n = 0, int_bs = 32, int_valid = True\<rparr>,
          Some (NumError ''ParseInt'' ''abc'' ErrSyntax))
   \<and> \<not> pgInteger_IsNull \<lparr>int_n = 0, int_bs = 32, int_valid = True\<rparr>
   \<and> pgArray_Scan text_or_int_Value
        \<lparr>array_vs = [], array_el = Text_child, array_valid = True\<rparr> SNil
       = Returns (\<lparr>array_vs = [], array_el = Text_child, array_valid = False\<rparr>, None)
   \<and> pgArray_IsNull \<lparr>array_vs = [], array_el = Text_child, array_valid = False\<rparr>
   \<and> pgArray_Append text_or_int_Value
        \<lparr>array_vs = [], array_el = Text_child, array_valid = False\<rparr>
        (SValue (AText \<lparr>text_s = ''x'', text_n = 0, text_p = False, text_valid = True\<rparr>))
       = Returns (\<lparr>array_vs = [AText \<lparr>text_s = ''x'', text_n = 0, text_p = False,
                                        text_valid = True\<rparr>],
                   array_el = Text_child, array_valid = True\<rparr>, None)
   \<and> \<not> pgArray_IsNull
          \<lparr>array_vs = [AText \<lparr>text_s = ''x'', text_n = 0, text_p = False, text_valid = True\<rparr>],
           array_el = Text_child, array_valid = True\<rparr>
   \<and> HStore SNil = Returns (\<lparr>hstore_m = [], hstore_valid = False\<rparr>, None)
   \<and> pgHStore_IsNull \<lparr>hstore_m = [], hstore_valid = False\<rparr>
   \<and> pgHStore_bytes \<lparr>hstore_m = [], hstore_valid = False\<rparr> = ([], None)
   \<and> [] \<noteq> nullBytes"
  by (simp add: Integer_def newInt_def pgInteger_Scan_def pgInteger_IsNull_def ParseInt_def
      ParseUint_def is_digit_def HStore_def pgHStore_Scan_def pgHStore_IsNull_def
      pgHStore_bytes_def nullBytes_def pgArray_Scan_def pgArray_Append_def pgArray_IsNull_def
      Let_def)


end
